theory Spec2Isabelle
  imports Complex_Main "HOL-Library.Word"
begin

section \<open>Strings\<close>

text \<open>
  A JavaScript string is a sequence of UTF-16 code units. The literals of the sources are
  ASCII apart from the bullet U+2022 of two templates; \<open>lit\<close> embeds an ASCII literal.
\<close>

type_synonym ustring = "16 word list"

definition lit :: "string \<Rightarrow> ustring" where
  "lit s = map (\<lambda>c. of_char c) s"

definition bullet :: ustring where
  "bullet = [0x2022]"

text \<open>Truthiness of a string value: every string but the empty one.\<close>

definition truthy_str :: "ustring \<Rightarrow> bool" where
  "truthy_str s = (s \<noteq> [])"

section \<open>NetworkingCoach.tsx: form data and templates\<close>

datatype MessageType = Linkedin | Informational | RecruiterFollowup | MentorRequest

text \<open>The string each member of the union type stands for.\<close>

fun MessageType_name :: "MessageType \<Rightarrow> ustring" where
  "MessageType_name Linkedin = lit ''linkedin''"
| "MessageType_name Informational = lit ''informational''"
| "MessageType_name RecruiterFollowup = lit ''recruiter-followup''"
| "MessageType_name MentorRequest = lit ''mentor-request''"

record MessageData =
  recipientName :: ustring
  recipientTitle :: ustring
  company :: ustring
  purpose :: ustring
  messageType :: MessageType

text \<open>
  \<open>messageTemplates[t].template\<close>: a template literal is the concatenation of its literal
  segments and the interpolated fields. (The \<open>title\<close>, \<open>icon\<close> and \<open>description\<close> members
  of the table are display data and are not modelled.)
\<close>

definition linkedin_template :: "MessageData \<Rightarrow> ustring" where
  "linkedin_template data =
     lit ''Hi '' @
     recipientName data @
     lit '',\<newline>\<newline>'' @
     lit ''I'm a student and came across your profile. I was impressed by your '' @
     lit ''work at '' @
     company data @
     lit ''. '' @
     purpose data @
     lit ''\<newline>\<newline>'' @
     lit ''I'd love to connect and learn from your experience in the field.\<newline>\<newline>'' @
     lit ''Best regards''"

definition informational_template :: "MessageData \<Rightarrow> ustring" where
  "informational_template data =
     lit ''Subject: Informational Interview Request\<newline>\<newline>'' @
     lit ''Dear '' @
     recipientName data @
     lit '',\<newline>\<newline>'' @
     lit ''I hope this email finds you well. I'm a student and discovered your '' @
     lit ''profile through LinkedIn. I was impressed by your career journey at '' @
     company data @
     lit ''.\<newline>\<newline>'' @
     purpose data @
     lit ''\<newline>\<newline>'' @
     lit ''I would be incredibly grateful for 15-20 minutes of your time to learn '' @
     lit ''about your experience and gain insights into the industry. I'm '' @
     lit ''particularly interested in understanding:\<newline>\<newline>'' @
     bullet @
     lit '' Your career path and key decisions\<newline>'' @
     bullet @
     lit '' Advice for someone entering the field\<newline>'' @
     bullet @
     lit '' Current trends and challenges in the industry\<newline>\<newline>'' @
     lit ''I'm flexible with timing and happy to work around your schedule. Would '' @
     lit ''a brief phone call or video chat be possible in the coming weeks?\<newline>\<newline>'' @
     lit ''Thank you for considering my request. I understand you have a busy '' @
     lit ''schedule and truly appreciate any time you can spare.\<newline>\<newline>'' @
     lit ''Best regards''"

definition recruiter_followup_template :: "MessageData \<Rightarrow> ustring" where
  "recruiter_followup_template data =
     lit ''Subject: Following up on our conversation\<newline>\<newline>'' @
     lit ''Hi '' @
     recipientName data @
     lit '',\<newline>\<newline>'' @
     lit ''Thank you for taking the time to speak with me about opportunities at '' @
     company data @
     lit ''. '' @
     purpose data @
     lit ''\<newline>\<newline>'' @
     lit ''I wanted to follow up and reiterate my strong interest in joining your '' @
     lit ''team. Based on our conversation, I'm even more excited about the '' @
     lit ''possibility of contributing to '' @
     company data @
     lit '''s mission.\<newline>\<newline>'' @
     lit ''I've attached my updated resume and would be happy to provide any '' @
     lit ''additional information you might need. Please let me know if there are '' @
     lit ''any next steps I should be aware of.\<newline>\<newline>'' @
     lit ''I look forward to hearing from you.\<newline>\<newline>'' @
     lit ''Best regards''"

definition mentor_request_template :: "MessageData \<Rightarrow> ustring" where
  "mentor_request_template data =
     lit ''Subject: Mentorship Opportunity\<newline>\<newline>'' @
     lit ''Dear '' @
     recipientName data @
     lit '',\<newline>\<newline>'' @
     lit ''I hope you're doing well. I'm a student and came across your profile. '' @
     lit ''I was inspired by your career achievements at '' @
     company data @
     lit ''.\<newline>\<newline>'' @
     purpose data @
     lit ''\<newline>\<newline>'' @
     lit ''I'm writing to inquire about the possibility of a mentoring '' @
     lit ''relationship. I'm passionate about growing in this field and would '' @
     lit ''greatly value guidance from someone with your experience and '' @
     lit ''expertise.\<newline>\<newline>'' @
     lit ''I understand that mentoring is a significant commitment, and I want to '' @
     lit ''assure you that I would:\<newline>\<newline>'' @
     bullet @
     lit '' Come prepared to our conversations with specific questions\<newline>'' @
     bullet @
     lit '' Respect your time and schedule\<newline>'' @
     bullet @
     lit '' Take action on the advice you provide\<newline>'' @
     bullet @
     lit '' Keep you updated on my progress\<newline>\<newline>'' @
     lit ''Would you be open to a brief conversation to discuss this possibility? '' @
     lit ''I'm happy to accommodate your schedule and preferred communication '' @
     lit ''method.\<newline>\<newline>'' @
     lit ''Thank you for considering this request.\<newline>\<newline>'' @
     lit ''Respectfully''"

fun messageTemplates :: "MessageType \<Rightarrow> MessageData \<Rightarrow> ustring" where
  "messageTemplates Linkedin = linkedin_template"
| "messageTemplates Informational = informational_template"
| "messageTemplates RecruiterFollowup = recruiter_followup_template"
| "messageTemplates MentorRequest = mentor_request_template"

section \<open>The other form of the component (unnamed source part 0)\<close>

text \<open>
  A form of the same component with three more form fields and no progress indicator;
  its names carry the suffix \<open>_p0\<close>.
\<close>

record MessageData_p0 =
  recipientName_p0 :: ustring
  recipientTitle_p0 :: ustring
  company_p0 :: ustring
  studentName_p0 :: ustring
  university_p0 :: ustring
  major_p0 :: ustring
  purpose_p0 :: ustring
  messageType_p0 :: MessageType

definition linkedin_template_p0 :: "MessageData_p0 \<Rightarrow> ustring" where
  "linkedin_template_p0 data =
     lit ''Hi '' @
     recipientName_p0 data @
     lit '',\<newline>\<newline>'' @
     lit ''I'm '' @
     studentName_p0 data @
     lit '', a '' @
     major_p0 data @
     lit '' student at '' @
     university_p0 data @
     lit ''. I came across your profile and was impressed by your work at '' @
     company_p0 data @
     lit ''. '' @
     purpose_p0 data @
     lit ''\<newline>\<newline>'' @
     lit ''I'd love to connect and learn from your experience in the field.\<newline>\<newline>'' @
     lit ''Best regards,\<newline>'' @
     studentName_p0 data"

definition informational_template_p0 :: "MessageData_p0 \<Rightarrow> ustring" where
  "informational_template_p0 data =
     lit ''Subject: Informational Interview Request - '' @
     major_p0 data @
     lit '' Student at '' @
     university_p0 data @
     lit ''\<newline>\<newline>'' @
     lit ''Dear '' @
     recipientName_p0 data @
     lit '',\<newline>\<newline>'' @
     lit ''I hope this email finds you well. My name is '' @
     studentName_p0 data @
     lit '', and I'm a '' @
     major_p0 data @
     lit '' student at '' @
     university_p0 data @
     lit ''. I discovered your profile through LinkedIn and was impressed by your '' @
     lit ''career journey at '' @
     company_p0 data @
     lit ''.\<newline>\<newline>'' @
     purpose_p0 data @
     lit ''\<newline>\<newline>'' @
     lit ''I would be incredibly grateful for 15-20 minutes of your time to learn '' @
     lit ''about your experience and gain insights into the industry. I'm '' @
     lit ''particularly interested in understanding:\<newline>\<newline>'' @
     bullet @
     lit '' Your career path and key decisions\<newline>'' @
     bullet @
     lit '' Advice for someone entering the field\<newline>'' @
     bullet @
     lit '' Current trends and challenges in the industry\<newline>\<newline>'' @
     lit ''I'm flexible with timing and happy to work around your schedule. Would '' @
     lit ''a brief phone call or video chat be possible in the coming weeks?\<newline>\<newline>'' @
     lit ''Thank you for considering my request. I understand you have a busy '' @
     lit ''schedule and truly appreciate any time you can spare.\<newline>\<newline>'' @
     lit ''Best regards,\<newline>'' @
     studentName_p0 data @
     lit ''\<newline>'' @
     university_p0 data @
     lit ''\<newline>'' @
     lit ''[Your Phone Number]\<newline>'' @
     lit ''[Your Email]''"

definition recruiter_followup_template_p0 :: "MessageData_p0 \<Rightarrow> ustring" where
  "recruiter_followup_template_p0 data =
     lit ''Subject: Following up on our conversation - '' @
     studentName_p0 data @
     lit ''\<newline>\<newline>'' @
     lit ''Hi '' @
     recipientName_p0 data @
     lit '',\<newline>\<newline>'' @
     lit ''Thank you for taking the time to speak with me about opportunities at '' @
     company_p0 data @
     lit ''. '' @
     purpose_p0 data @
     lit ''\<newline>\<newline>'' @
     lit ''I wanted to follow up and reiterate my strong interest in joining your '' @
     lit ''team. Based on our conversation, I'm even more excited about the '' @
     lit ''possibility of contributing to '' @
     company_p0 data @
     lit '''s mission.\<newline>\<newline>'' @
     lit ''I've attached my updated resume and would be happy to provide any '' @
     lit ''additional information you might need. Please let me know if there are '' @
     lit ''any next steps I should be aware of.\<newline>\<newline>'' @
     lit ''I look forward to hearing from you.\<newline>\<newline>'' @
     lit ''Best regards,\<newline>'' @
     studentName_p0 data @
     lit ''\<newline>'' @
     university_p0 data @
     lit ''\<newline>'' @
     lit ''[Your Phone Number]\<newline>'' @
     lit ''[Your Email]''"

definition mentor_request_template_p0 :: "MessageData_p0 \<Rightarrow> ustring" where
  "mentor_request_template_p0 data =
     lit ''Subject: Mentorship Opportunity - '' @
     major_p0 data @
     lit '' Student at '' @
     university_p0 data @
     lit ''\<newline>\<newline>'' @
     lit ''Dear '' @
     recipientName_p0 data @
     lit '',\<newline>\<newline>'' @
     lit ''I hope you're doing well. My name is '' @
     studentName_p0 data @
     lit '', and I'm a '' @
     major_p0 data @
     lit '' student at '' @
     university_p0 data @
     lit ''. I came across your profile and was inspired by your career '' @
     lit ''achievements at '' @
     company_p0 data @
     lit ''.\<newline>\<newline>'' @
     purpose_p0 data @
     lit ''\<newline>\<newline>'' @
     lit ''I'm writing to inquire about the possibility of a mentoring '' @
     lit ''relationship. I'm passionate about growing in this field and would '' @
     lit ''greatly value guidance from someone with your experience and '' @
     lit ''expertise.\<newline>\<newline>'' @
     lit ''I understand that mentoring is a significant commitment, and I want to '' @
     lit ''assure you that I would:\<newline>\<newline>'' @
     bullet @
     lit '' Come prepared to our conversations with specific questions\<newline>'' @
     bullet @
     lit '' Respect your time and schedule\<newline>'' @
     bullet @
     lit '' Take action on the advice you provide\<newline>'' @
     bullet @
     lit '' Keep you updated on my progress\<newline>\<newline>'' @
     lit ''Would you be open to a brief conversation to discuss this possibility? '' @
     lit ''I'm happy to accommodate your schedule and preferred communication '' @
     lit ''method.\<newline>\<newline>'' @
     lit ''Thank you for considering this request.\<newline>\<newline>'' @
     lit ''Respectfully,\<newline>'' @
     studentName_p0 data @
     lit ''\<newline>'' @
     university_p0 data @
     lit ''\<newline>'' @
     lit ''[Your Phone Number]\<newline>'' @
     lit ''[Your Email]''"

fun messageTemplates_p0 :: "MessageType \<Rightarrow> MessageData_p0 \<Rightarrow> ustring" where
  "messageTemplates_p0 Linkedin = linkedin_template_p0"
| "messageTemplates_p0 Informational = informational_template_p0"
| "messageTemplates_p0 RecruiterFollowup = recruiter_followup_template_p0"
| "messageTemplates_p0 MentorRequest = mentor_request_template_p0"

section \<open>Fixed patterns\<close>

text \<open>
  A pattern is a list of literal segments and field references; rendering it reads the
  input only through the field references.
\<close>

datatype 'f piece = Lit ustring | Field 'f

fun render :: "('f \<Rightarrow> ustring) \<Rightarrow> 'f piece list \<Rightarrow> ustring" where
  "render get [] = []"
| "render get (Lit s # ps) = s @ render get ps"
| "render get (Field f # ps) = get f @ render get ps"

datatype field = RecipientName | Company | Purpose

fun field_of :: "MessageData \<Rightarrow> field \<Rightarrow> ustring" where
  "field_of d RecipientName = recipientName d"
| "field_of d Company = company d"
| "field_of d Purpose = purpose d"

datatype field_p0 =
  RecipientName_p0 | Company_p0 | Purpose_p0 | StudentName_p0 | University_p0 | Major_p0

fun field_of_p0 :: "MessageData_p0 \<Rightarrow> field_p0 \<Rightarrow> ustring" where
  "field_of_p0 d RecipientName_p0 = recipientName_p0 d"
| "field_of_p0 d Company_p0 = company_p0 d"
| "field_of_p0 d Purpose_p0 = purpose_p0 d"
| "field_of_p0 d StudentName_p0 = studentName_p0 d"
| "field_of_p0 d University_p0 = university_p0 d"
| "field_of_p0 d Major_p0 = major_p0 d"

text \<open>
  A function of the input is a fixed pattern over the fields \<open>get\<close> when one list of
  pieces renders it for every input.
\<close>

definition fixed_pattern :: "('d \<Rightarrow> 'f \<Rightarrow> ustring) \<Rightarrow> ('d \<Rightarrow> ustring) \<Rightarrow> bool" where
  "fixed_pattern get f = (\<exists>ps. \<forall>d. f d = render (get d) ps)"

text \<open>The fields that a pattern refers to, in their order of occurrence.\<close>

fun fields_of :: "'f piece list \<Rightarrow> 'f list" where
  "fields_of [] = []"
| "fields_of (Lit s # ps) = fields_of ps"
| "fields_of (Field f # ps) = f # fields_of ps"

subsection \<open>The template literals as data\<close>

text \<open>
  Each template literal of the sources, read as the list of its literal segments and its
  substitutions \<open>${data.f}\<close>: first those of NetworkingCoach.tsx, then those of the other
  form of the component.
\<close>

definition linkedin_pattern :: "field piece list" where
  "linkedin_pattern =
     [Lit (lit ''Hi ''),
      Field RecipientName,
      Lit (lit '',\<newline>\<newline>'' @
           lit ''I'm a student and came across your profile. I was impressed by your '' @
           lit ''work at ''),
      Field Company,
      Lit (lit ''. ''),
      Field Purpose,
      Lit (lit ''\<newline>\<newline>'' @
           lit ''I'd love to connect and learn from your experience in the field.\<newline>\<newline>'' @
           lit ''Best regards'')]"

definition informational_pattern :: "field piece list" where
  "informational_pattern =
     [Lit (lit ''Subject: Informational Interview Request\<newline>\<newline>'' @
           lit ''Dear ''),
      Field RecipientName,
      Lit (lit '',\<newline>\<newline>'' @
           lit ''I hope this email finds you well. I'm a student and discovered your '' @
           lit ''profile through LinkedIn. I was impressed by your career journey at ''),
      Field Company,
      Lit (lit ''.\<newline>\<newline>''),
      Field Purpose,
      Lit (lit ''\<newline>\<newline>'' @
           lit ''I would be incredibly grateful for 15-20 minutes of your time to learn '' @
           lit ''about your experience and gain insights into the industry. I'm '' @
           lit ''particularly interested in understanding:\<newline>\<newline>'' @
           bullet @
           lit '' Your career path and key decisions\<newline>'' @
           bullet @
           lit '' Advice for someone entering the field\<newline>'' @
           bullet @
           lit '' Current trends and challenges in the industry\<newline>\<newline>'' @
           lit ''I'm flexible with timing and happy to work around your schedule. Would '' @
           lit ''a brief phone call or video chat be possible in the coming weeks?\<newline>\<newline>'' @
           lit ''Thank you for considering my request. I understand you have a busy '' @
           lit ''schedule and truly appreciate any time you can spare.\<newline>\<newline>'' @
           lit ''Best regards'')]"

definition recruiter_followup_pattern :: "field piece list" where
  "recruiter_followup_pattern =
     [Lit (lit ''Subject: Following up on our conversation\<newline>\<newline>'' @
           lit ''Hi ''),
      Field RecipientName,
      Lit (lit '',\<newline>\<newline>'' @
           lit ''Thank you for taking the time to speak with me about opportunities at ''),
      Field Company,
      Lit (lit ''. ''),
      Field Purpose,
      Lit (lit ''\<newline>\<newline>'' @
           lit ''I wanted to follow up and reiterate my strong interest in joining your '' @
           lit ''team. Based on our conversation, I'm even more excited about the '' @
           lit ''possibility of contributing to ''),
      Field Company,
      Lit (lit '''s mission.\<newline>\<newline>'' @
           lit ''I've attached my updated resume and would be happy to provide any '' @
           lit ''additional information you might need. Please let me know if there are '' @
           lit ''any next steps I should be aware of.\<newline>\<newline>'' @
           lit ''I look forward to hearing from you.\<newline>\<newline>'' @
           lit ''Best regards'')]"

definition mentor_request_pattern :: "field piece list" where
  "mentor_request_pattern =
     [Lit (lit ''Subject: Mentorship Opportunity\<newline>\<newline>'' @
           lit ''Dear ''),
      Field RecipientName,
      Lit (lit '',\<newline>\<newline>'' @
           lit ''I hope you're doing well. I'm a student and came across your profile. '' @
           lit ''I was inspired by your career achievements at ''),
      Field Company,
      Lit (lit ''.\<newline>\<newline>''),
      Field Purpose,
      Lit (lit ''\<newline>\<newline>'' @
           lit ''I'm writing to inquire about the possibility of a mentoring '' @
           lit ''relationship. I'm passionate about growing in this field and would '' @
           lit ''greatly value guidance from someone with your experience and '' @
           lit ''expertise.\<newline>\<newline>'' @
           lit ''I understand that mentoring is a significant commitment, and I want to '' @
           lit ''assure you that I would:\<newline>\<newline>'' @
           bullet @
           lit '' Come prepared to our conversations with specific questions\<newline>'' @
           bullet @
           lit '' Respect your time and schedule\<newline>'' @
           bullet @
           lit '' Take action on the advice you provide\<newline>'' @
           bullet @
           lit '' Keep you updated on my progress\<newline>\<newline>'' @
           lit ''Would you be open to a brief conversation to discuss this possibility? '' @
           lit ''I'm happy to accommodate your schedule and preferred communication '' @
           lit ''method.\<newline>\<newline>'' @
           lit ''Thank you for considering this request.\<newline>\<newline>'' @
           lit ''Respectfully'')]"

fun template_pattern :: "MessageType \<Rightarrow> field piece list" where
  "template_pattern Linkedin = linkedin_pattern"
| "template_pattern Informational = informational_pattern"
| "template_pattern RecruiterFollowup = recruiter_followup_pattern"
| "template_pattern MentorRequest = mentor_request_pattern"

definition linkedin_pattern_p0 :: "field_p0 piece list" where
  "linkedin_pattern_p0 =
     [Lit (lit ''Hi ''),
      Field RecipientName_p0,
      Lit (lit '',\<newline>\<newline>'' @
           lit ''I'm ''),
      Field StudentName_p0,
      Lit (lit '', a ''),
      Field Major_p0,
      Lit (lit '' student at ''),
      Field University_p0,
      Lit (lit ''. I came across your profile and was impressed by your work at ''),
      Field Company_p0,
      Lit (lit ''. ''),
      Field Purpose_p0,
      Lit (lit ''\<newline>\<newline>'' @
           lit ''I'd love to connect and learn from your experience in the field.\<newline>\<newline>'' @
           lit ''Best regards,\<newline>''),
      Field StudentName_p0]"

definition informational_pattern_p0 :: "field_p0 piece list" where
  "informational_pattern_p0 =
     [Lit (lit ''Subject: Informational Interview Request - ''),
      Field Major_p0,
      Lit (lit '' Student at ''),
      Field University_p0,
      Lit (lit ''\<newline>\<newline>'' @
           lit ''Dear ''),
      Field RecipientName_p0,
      Lit (lit '',\<newline>\<newline>'' @
           lit ''I hope this email finds you well. My name is ''),
      Field StudentName_p0,
      Lit (lit '', and I'm a ''),
      Field Major_p0,
      Lit (lit '' student at ''),
      Field University_p0,
      Lit (lit ''. I discovered your profile through LinkedIn and was impressed by your '' @
           lit ''career journey at ''),
      Field Company_p0,
      Lit (lit ''.\<newline>\<newline>''),
      Field Purpose_p0,
      Lit (lit ''\<newline>\<newline>'' @
           lit ''I would be incredibly grateful for 15-20 minutes of your time to learn '' @
           lit ''about your experience and gain insights into the industry. I'm '' @
           lit ''particularly interested in understanding:\<newline>\<newline>'' @
           bullet @
           lit '' Your career path and key decisions\<newline>'' @
           bullet @
           lit '' Advice for someone entering the field\<newline>'' @
           bullet @
           lit '' Current trends and challenges in the industry\<newline>\<newline>'' @
           lit ''I'm flexible with timing and happy to work around your schedule. Would '' @
           lit ''a brief phone call or video chat be possible in the coming weeks?\<newline>\<newline>'' @
           lit ''Thank you for considering my request. I understand you have a busy '' @
           lit ''schedule and truly appreciate any time you can spare.\<newline>\<newline>'' @
           lit ''Best regards,\<newline>''),
      Field StudentName_p0,
      Lit (lit ''\<newline>''),
      Field University_p0,
      Lit (lit ''\<newline>'' @
           lit ''[Your Phone Number]\<newline>'' @
           lit ''[Your Email]'')]"

definition recruiter_followup_pattern_p0 :: "field_p0 piece list" where
  "recruiter_followup_pattern_p0 =
     [Lit (lit ''Subject: Following up on our conversation - ''),
      Field StudentName_p0,
      Lit (lit ''\<newline>\<newline>'' @
           lit ''Hi ''),
      Field RecipientName_p0,
      Lit (lit '',\<newline>\<newline>'' @
           lit ''Thank you for taking the time to speak with me about opportunities at ''),
      Field Company_p0,
      Lit (lit ''. ''),
      Field Purpose_p0,
      Lit (lit ''\<newline>\<newline>'' @
           lit ''I wanted to follow up and reiterate my strong interest in joining your '' @
           lit ''team. Based on our conversation, I'm even more excited about the '' @
           lit ''possibility of contributing to ''),
      Field Company_p0,
      Lit (lit '''s mission.\<newline>\<newline>'' @
           lit ''I've attached my updated resume and would be happy to provide any '' @
           lit ''additional information you might need. Please let me know if there are '' @
           lit ''any next steps I should be aware of.\<newline>\<newline>'' @
           lit ''I look forward to hearing from you.\<newline>\<newline>'' @
           lit ''Best regards,\<newline>''),
      Field StudentName_p0,
      Lit (lit ''\<newline>''),
      Field University_p0,
      Lit (lit ''\<newline>'' @
           lit ''[Your Phone Number]\<newline>'' @
           lit ''[Your Email]'')]"

definition mentor_request_pattern_p0 :: "field_p0 piece list" where
  "mentor_request_pattern_p0 =
     [Lit (lit ''Subject: Mentorship Opportunity - ''),
      Field Major_p0,
      Lit (lit '' Student at ''),
      Field University_p0,
      Lit (lit ''\<newline>\<newline>'' @
           lit ''Dear ''),
      Field RecipientName_p0,
      Lit (lit '',\<newline>\<newline>'' @
           lit ''I hope you're doing well. My name is ''),
      Field StudentName_p0,
      Lit (lit '', and I'm a ''),
      Field Major_p0,
      Lit (lit '' student at ''),
      Field University_p0,
      Lit (lit ''. I came across your profile and was inspired by your career '' @
           lit ''achievements at ''),
      Field Company_p0,
      Lit (lit ''.\<newline>\<newline>''),
      Field Purpose_p0,
      Lit (lit ''\<newline>\<newline>'' @
           lit ''I'm writing to inquire about the possibility of a mentoring '' @
           lit ''relationship. I'm passionate about growing in this field and would '' @
           lit ''greatly value guidance from someone with your experience and '' @
           lit ''expertise.\<newline>\<newline>'' @
           lit ''I understand that mentoring is a significant commitment, and I want to '' @
           lit ''assure you that I would:\<newline>\<newline>'' @
           bullet @
           lit '' Come prepared to our conversations with specific questions\<newline>'' @
           bullet @
           lit '' Respect your time and schedule\<newline>'' @
           bullet @
           lit '' Take action on the advice you provide\<newline>'' @
           bullet @
           lit '' Keep you updated on my progress\<newline>\<newline>'' @
           lit ''Would you be open to a brief conversation to discuss this possibility? '' @
           lit ''I'm happy to accommodate your schedule and preferred communication '' @
           lit ''method.\<newline>\<newline>'' @
           lit ''Thank you for considering this request.\<newline>\<newline>'' @
           lit ''Respectfully,\<newline>''),
      Field StudentName_p0,
      Lit (lit ''\<newline>''),
      Field University_p0,
      Lit (lit ''\<newline>'' @
           lit ''[Your Phone Number]\<newline>'' @
           lit ''[Your Email]'')]"

fun template_pattern_p0 :: "MessageType \<Rightarrow> field_p0 piece list" where
  "template_pattern_p0 Linkedin = linkedin_pattern_p0"
| "template_pattern_p0 Informational = informational_pattern_p0"
| "template_pattern_p0 RecruiterFollowup = recruiter_followup_pattern_p0"
| "template_pattern_p0 MentorRequest = mentor_request_pattern_p0"

section \<open>NetworkingCoach.tsx: component state and event handlers\<close>

record CoachState =
  messageData :: MessageData
  generatedMessage :: ustring
  copied :: bool
  activeStep :: int

definition initial :: CoachState where
  "initial =
     \<lparr>messageData = \<lparr>recipientName = [], recipientTitle = [], company = [], purpose = [],
        messageType = Linkedin\<rparr>,
      generatedMessage = [], copied = False, activeStep = 1\<rparr>"

definition handleGenerate :: "CoachState \<Rightarrow> CoachState" where
  "handleGenerate s =
     (let template = messageTemplates (messageType (messageData s));
          message = template (messageData s)
      in s\<lparr>generatedMessage := message, activeStep := 3\<rparr>)"

text \<open>
  \<open>handleCopy\<close> first calls \<open>navigator.clipboard.writeText\<close>; on a page without the
  Clipboard API that call throws and the handler stops there. Otherwise (the promise that
  the call returns is not awaited) it sets \<open>copied\<close>, starts the timer that resets it and
  shows a toast. The flag says whether the page has the Clipboard API.
\<close>

datatype ui_error = Clipboard_missing

definition handleCopy :: "bool \<Rightarrow> CoachState \<Rightarrow> ui_error + CoachState" where
  "handleCopy clipboard s =
     (if clipboard then Inr (s\<lparr>copied := True\<rparr>) else Inl Clipboard_missing)"

text \<open>\<open>recipientName && company\<close>: the first operand when it is falsy, else the second.\<close>

definition isFormValid :: "CoachState \<Rightarrow> ustring" where
  "isFormValid s =
     (if truthy_str (recipientName (messageData s)) then company (messageData s)
      else recipientName (messageData s))"

text \<open>The Generate Message button has \<open>disabled={!isFormValid}\<close>.\<close>

definition generate_disabled :: "CoachState \<Rightarrow> bool" where
  "generate_disabled s = (\<not> truthy_str (isFormValid s))"

text \<open>
  The events of the rendered component: a click on a message type button, a change of one
  of the four inputs, a click on Generate Message (ignored while the button is disabled),
  a click on Copy (the button is rendered only while \<open>generatedMessage\<close> is truthy; the
  event says whether the page has the Clipboard API), and the expiry of a timer started by
  \<open>handleCopy\<close>. An error thrown by a handler leaves the state as it was. Timers expire in
  the order in which they were started, so when none is pending \<open>copied\<close> is already
  false, and the expiry event changes nothing then.
\<close>

datatype Event =
  SelectType MessageType
| ChangeRecipientName ustring
| ChangeRecipientTitle ustring
| ChangeCompany ustring
| ChangePurpose ustring
| ClickGenerate
| ClickCopy bool
| CopiedTimeout

fun step :: "Event \<Rightarrow> CoachState \<Rightarrow> CoachState" where
  "step (SelectType key) s =
     s\<lparr>messageData := (messageData s)\<lparr>messageType := key\<rparr>,
       activeStep := max (activeStep s) 1\<rparr>"
| "step (ChangeRecipientName v) s =
     (let s' = s\<lparr>messageData := (messageData s)\<lparr>recipientName := v\<rparr>\<rparr>
      in if truthy_str v \<and> activeStep s < 2 then s'\<lparr>activeStep := 2\<rparr> else s')"
| "step (ChangeRecipientTitle v) s =
     s\<lparr>messageData := (messageData s)\<lparr>recipientTitle := v\<rparr>\<rparr>"
| "step (ChangeCompany v) s = s\<lparr>messageData := (messageData s)\<lparr>company := v\<rparr>\<rparr>"
| "step (ChangePurpose v) s = s\<lparr>messageData := (messageData s)\<lparr>purpose := v\<rparr>\<rparr>"
| "step ClickGenerate s = (if generate_disabled s then s else handleGenerate s)"
| "step (ClickCopy clipboard) s =
     (if truthy_str (generatedMessage s)
      then (case handleCopy clipboard s of Inl e \<Rightarrow> s | Inr s' \<Rightarrow> s')
      else s)"
| "step CopiedTimeout s = s\<lparr>copied := False\<rparr>"

definition run :: "Event list \<Rightarrow> CoachState" where
  "run es = foldl (\<lambda>s e. step e s) initial es"

subsection \<open>The other form of the component\<close>

record CoachState_p0 =
  messageData_p0 :: MessageData_p0
  generatedMessage_p0 :: ustring
  copied_p0 :: bool

definition handleGenerate_p0 :: "CoachState_p0 \<Rightarrow> CoachState_p0" where
  "handleGenerate_p0 s =
     (let template = messageTemplates_p0 (messageType_p0 (messageData_p0 s));
          message = template (messageData_p0 s)
      in s\<lparr>generatedMessage_p0 := message\<rparr>)"


section \<open>The edge function\<close>

subsection \<open>Values and errors\<close>

text \<open>A thrown error, with its \<open>message\<close>.\<close>

datatype js_error = Error (message: ustring)

text \<open>
  The wording of the TypeErrors that the runtime itself raises (reading a property of
  \<open>null\<close>, calling a value that is not a function) is the runtime's; it is a parameter.
\<close>

record runtime =
  null_read_msg :: ustring
  not_a_function_msg :: ustring

text \<open>
  A value produced by \<open>JSON.parse\<close>. Where a \<open>json option\<close> is used, \<open>None\<close> is
  \<open>undefined\<close>.
\<close>

datatype json =
  JNull
| JBool bool
| JNum real
| JStr ustring
| JArr "json list"
| JObj "(ustring \<times> json) list"

fun truthy_json :: "json \<Rightarrow> bool" where
  "truthy_json JNull = False"
| "truthy_json (JBool b) = b"
| "truthy_json (JNum x) = (x \<noteq> 0)"
| "truthy_json (JStr s) = (s \<noteq> [])"
| "truthy_json (JArr xs) = True"
| "truthy_json (JObj kvs) = True"

definition truthy :: "json option \<Rightarrow> bool" where
  "truthy v = (case v of None \<Rightarrow> False | Some j \<Rightarrow> truthy_json j)"

text \<open>
  \<open>v.k\<close> for a key that no prototype defines (\<open>choices\<close>, \<open>message\<close>, \<open>content\<close>):
  a TypeError on \<open>null\<close> and \<open>undefined\<close>, the member of an object (the last one when
  the JSON text repeats the key), \<open>undefined\<close> on every other value.
\<close>

fun get_prop :: "runtime \<Rightarrow> json option \<Rightarrow> ustring \<Rightarrow> js_error + json option" where
  "get_prop rt None k = Inl (Error (null_read_msg rt))"
| "get_prop rt (Some JNull) k = Inl (Error (null_read_msg rt))"
| "get_prop rt (Some (JObj kvs)) k = Inr (map_of (rev kvs) k)"
| "get_prop rt (Some v) k = Inr None"

text \<open>
  \<open>v[0]\<close>: the first element of an array, the first code unit of a string, the member
  \<open>"0"\<close> of an object.
\<close>

fun get_index0 :: "runtime \<Rightarrow> json option \<Rightarrow> js_error + json option" where
  "get_index0 rt None = Inl (Error (null_read_msg rt))"
| "get_index0 rt (Some JNull) = Inl (Error (null_read_msg rt))"
| "get_index0 rt (Some (JArr xs)) = Inr (case xs of [] \<Rightarrow> None | x # _ \<Rightarrow> Some x)"
| "get_index0 rt (Some (JStr s)) = Inr (case s of [] \<Rightarrow> None | c # _ \<Rightarrow> Some (JStr [c]))"
| "get_index0 rt (Some (JObj kvs)) = Inr (map_of (rev kvs) (lit ''0''))"
| "get_index0 rt (Some v) = Inr None"

text \<open>\<open>String.prototype.trim\<close>: strips WhiteSpace and LineTerminator code units at both ends.\<close>

definition is_ws :: "16 word \<Rightarrow> bool" where
  "is_ws c =
     (c \<in> {0x0009, 0x000A, 0x000B, 0x000C, 0x000D, 0x0020, 0x00A0, 0x1680,
            0x2028, 0x2029, 0x202F, 0x205F, 0x3000, 0xFEFF}
      \<or> (0x2000 \<le> c \<and> c \<le> 0x200A))"

definition trim :: "ustring \<Rightarrow> ustring" where
  "trim s = rev (dropWhile is_ws (rev (dropWhile is_ws s)))"

text \<open>The decimal digits of a number, as a template literal prints a non-negative integer.\<close>

fun dec :: "nat \<Rightarrow> ustring" where
  "dec n = (if n < 10 then [of_nat (48 + n)] else dec (n div 10) @ [of_nat (48 + n mod 10)])"

text \<open>\<open>${v}\<close> for a value that is a string or \<open>undefined\<close>.\<close>

definition to_str :: "ustring option \<Rightarrow> ustring" where
  "to_str v = (case v of None \<Rightarrow> lit ''undefined'' | Some s \<Rightarrow> s)"

definition truthy_opt :: "ustring option \<Rightarrow> bool" where
  "truthy_opt v = (case v of None \<Rightarrow> False | Some s \<Rightarrow> truthy_str s)"

subsection \<open>Request, upstream call, response\<close>

text \<open>
  The members that the handler destructures from the request's JSON body. They are taken
  to be strings or absent (\<open>None\<close>), as the form's fields are.
\<close>

record request_json =
  messageType_rq :: "ustring option"
  recipientName_rq :: "ustring option"
  recipientTitle_rq :: "ustring option"
  company_rq :: "ustring option"
  purpose_rq :: "ustring option"

text \<open>
  A request: its method, and the outcome of \<open>await req.json()\<close> with the destructuring
  (\<open>Inl\<close> when the body is not JSON, or is \<open>null\<close>).
\<close>

record request =
  req_method :: ustring
  req_json :: "js_error + request_json"

text \<open>What the handler sends to the chat-completion endpoint (by POST).\<close>

record chat_request =
  authorization :: ustring
  model :: ustring
  system_content :: "ustring option"
  user_content :: ustring
  max_completion_tokens :: nat

text \<open>
  The upstream response: \<open>ok\<close>, \<open>status\<close>, \<open>statusText\<close>, and the outcomes of
  \<open>await response.text()\<close> and \<open>await response.json()\<close>.
\<close>

record fetch_response =
  resp_ok :: bool
  resp_status :: nat
  resp_statusText :: ustring
  resp_text :: "js_error + ustring"
  resp_json :: "js_error + json"

record response =
  status :: nat
  headers :: "(ustring \<times> ustring) list"
  body :: "json option"

definition corsHeaders :: "(ustring \<times> ustring) list" where
  "corsHeaders =
     [(lit ''Access-Control-Allow-Origin'', lit ''*''),
      (lit ''Access-Control-Allow-Headers'',
       lit ''authorization, x-client-info, apikey, content-type'')]"

definition systemPrompts :: "(ustring \<times> ustring) list" where
  "systemPrompts = [
     (lit ''linkedin'',
       lit ''You are an expert at writing professional LinkedIn connection '' @
       lit ''requests. Create concise, personalized messages that are warm but '' @
       lit ''professional. Keep them under 300 characters (LinkedIn's limit). Focus '' @
       lit ''on genuine interest and specific reasons for connecting.''),
     (lit ''informational'',
       lit ''You are an expert at writing professional informational interview '' @
       lit ''requests. Create thoughtful, respectful emails that show genuine '' @
       lit ''interest in learning. Include specific questions about their career '' @
       lit ''journey and industry insights. Be humble and acknowledge their '' @
       lit ''valuable time.''),
     (lit ''recruiter-followup'',
       lit ''You are an expert at writing professional recruiter follow-up '' @
       lit ''messages. Create engaging follow-ups that reiterate interest, '' @
       lit ''highlight relevant qualifications, and maintain momentum in the '' @
       lit ''conversation. Be enthusiastic but not pushy.''),
     (lit ''mentor-request'',
       lit ''You are an expert at writing mentorship request messages. Create '' @
       lit ''thoughtful, respectful requests that demonstrate genuine commitment to '' @
       lit ''learning and growth. Show appreciation for their expertise and be '' @
       lit ''specific about what kind of guidance you're seeking.'')]"

text \<open>
  The user prompt, built in three steps as in the source; \<open>===\<close> compares the
  \<open>messageType\<close> member with the string \<open>linkedin\<close>.
\<close>

definition userPrompt :: "request_json \<Rightarrow> ustring" where
  "userPrompt b =
     (let is_linkedin = (messageType_rq b = Some (lit ''linkedin''));
          p0 = lit ''Please write a '' @
               (if is_linkedin then lit ''LinkedIn connection request''
                else lit ''professional email'') @
               lit '' with the following details:\<newline>\<newline>'' @
               lit ''- Message type: '' @ to_str (messageType_rq b) @
               lit ''\<newline>- Recipient's name: '' @ to_str (recipientName_rq b) @
               lit ''\<newline>- Company: '' @ to_str (company_rq b);
          p1 = (if truthy_opt (recipientTitle_rq b)
                then p0 @ lit ''\<newline>- Recipient's title: '' @ to_str (recipientTitle_rq b)
                else p0);
          p2 = (if truthy_opt (purpose_rq b)
                then p1 @ lit ''\<newline>- Purpose/context: '' @ to_str (purpose_rq b)
                else p1)
      in p2 @
         lit ''\<newline>\<newline>Please make this message:\<newline>'' @
         lit ''- Personalized and genuine\<newline>'' @
         lit ''- Professional but approachable\<newline>'' @
         lit ''- Specific to their role and company\<newline>'' @
         lit ''- Concise and well-structured\<newline>'' @
         (if is_linkedin then lit ''- Under 300 characters for LinkedIn''
          else lit ''- Include a clear subject line if it's an email'') @
         lit ''\<newline>\<newline>'' @
         lit ''Generate ONLY the message content, no additional explanations or '' @
         lit ''formatting.'')"

text \<open>
  The body of the upstream call. \<open>systemPrompts[messageType]\<close> is looked up among the
  table's four own keys; for any other key the \<open>content\<close> member is taken as absent.
\<close>

definition chat_request_of :: "ustring \<Rightarrow> request_json \<Rightarrow> chat_request" where
  "chat_request_of key b =
     \<lparr>authorization = lit ''Bearer '' @ key,
      model = lit ''gpt-5-2025-08-07'',
      system_content = map_of systemPrompts (to_str (messageType_rq b)),
      user_content = userPrompt b,
      max_completion_tokens = 500\<rparr>"

text \<open>
  From \<open>const data = await response.json()\<close> to the trimmed message: the structure
  check, the emptiness check, and \<open>trim\<close>, which only a string has.
\<close>

definition extract_message :: "runtime \<Rightarrow> json \<Rightarrow> js_error + ustring" where
  "extract_message rt data =
     (case get_prop rt (Some data) (lit ''choices'') of
        Inl e \<Rightarrow> Inl e
      | Inr choices \<Rightarrow>
          if \<not> truthy choices
          then Inl (Error (lit ''Invalid response structure from OpenAI''))
          else
            (case get_index0 rt choices of
               Inl e \<Rightarrow> Inl e
             | Inr choice0 \<Rightarrow>
                 if \<not> truthy choice0
                 then Inl (Error (lit ''Invalid response structure from OpenAI''))
                 else
                   (case get_prop rt choice0 (lit ''message'') of
                      Inl e \<Rightarrow> Inl e
                    | Inr msg \<Rightarrow>
                        if \<not> truthy msg
                        then Inl (Error (lit ''Invalid response structure from OpenAI''))
                        else
                          (case get_prop rt msg (lit ''content'') of
                             Inl e \<Rightarrow> Inl e
                           | Inr generated \<Rightarrow>
                               if \<not> truthy generated
                               then Inl (Error (lit ''OpenAI returned an empty message''))
                               else
                                 (case generated of
                                    Some (JStr s) \<Rightarrow>
                                      if trim s = []
                                      then Inl (Error (lit ''OpenAI returned an empty message''))
                                      else Inr (trim s)
                                  | _ \<Rightarrow> Inl (Error (not_a_function_msg rt)))))))"

text \<open>
  The \<open>try\<close> block of the handler: \<open>Inl\<close> is the error it throws, \<open>Inr\<close> the trimmed
  message. The environment is the configured key (\<open>None\<close> when the variable is unset) and
  \<open>fetch\<close>, which answers the upstream call or rejects. Logging is not modelled.
\<close>

definition try_block ::
  "runtime \<Rightarrow> ustring option \<Rightarrow> (chat_request \<Rightarrow> js_error + fetch_response) \<Rightarrow> request
     \<Rightarrow> js_error + ustring" where
  "try_block rt openAIApiKey fetch req =
     (case req_json req of
        Inl e \<Rightarrow> Inl e
      | Inr b \<Rightarrow>
          if \<not> truthy_opt openAIApiKey
          then Inl (Error (lit ''OpenAI API key not configured''))
          else
            (case fetch (chat_request_of (to_str openAIApiKey) b) of
               Inl e \<Rightarrow> Inl e
             | Inr response \<Rightarrow>
                 if \<not> resp_ok response
                 then
                   (case resp_text response of
                      Inl e \<Rightarrow> Inl e
                    | Inr errorData \<Rightarrow>
                        Inl (Error (lit ''OpenAI API error: '' @ dec (resp_status response) @
                                    lit '' '' @ resp_statusText response)))
                 else
                   (case resp_json response of
                      Inl e \<Rightarrow> Inl e
                    | Inr data \<Rightarrow> extract_message rt data)))"

definition success_response :: "ustring \<Rightarrow> response" where
  "success_response msg =
     \<lparr>status = 200,
      headers = corsHeaders @ [(lit ''Content-Type'', lit ''application/json'')],
      body = Some (JObj [(lit ''success'', JBool True), (lit ''message'', JStr msg)])\<rparr>"

definition error_response :: "ustring \<Rightarrow> response" where
  "error_response msg =
     \<lparr>status = 500,
      headers = corsHeaders @ [(lit ''Content-Type'', lit ''application/json'')],
      body = Some (JObj [(lit ''success'', JBool False), (lit ''error'', JStr msg)])\<rparr>"

definition serve ::
  "runtime \<Rightarrow> ustring option \<Rightarrow> (chat_request \<Rightarrow> js_error + fetch_response) \<Rightarrow> request
     \<Rightarrow> response" where
  "serve rt openAIApiKey fetch req =
     (if req_method req = lit ''OPTIONS''
      then \<lparr>status = 200, headers = corsHeaders, body = None\<rparr>
      else
        (case try_block rt openAIApiKey fetch req of
           Inr generated \<Rightarrow> success_response generated
         | Inl e \<Rightarrow> error_response (message e)))"


section \<open>The database schema\<close>

type_synonym uuid = ustring
type_synonym timestamp = ustring

subsection \<open>Row-level-security policies\<close>

datatype table_name = Profiles | Networking_messages | Message_analytics

datatype command = Select | Insert | Update | Delete

text \<open>The one expression that the policies use: \<open>auth.uid() = user_id\<close>.\<close>

datatype policy_expr = Auth_uid_eq_user_id

record policy =
  policy_name :: string
  on_table :: table_name
  for_command :: command
  using_expr :: "policy_expr option"
  with_check_expr :: "policy_expr option"

definition policies :: "policy list" where
  "policies =
     [\<lparr>policy_name = ''Users can view their own profile'', on_table = Profiles,
       for_command = Select, using_expr = Some Auth_uid_eq_user_id, with_check_expr = None\<rparr>,
      \<lparr>policy_name = ''Users can create their own profile'', on_table = Profiles,
       for_command = Insert, using_expr = None, with_check_expr = Some Auth_uid_eq_user_id\<rparr>,
      \<lparr>policy_name = ''Users can update their own profile'', on_table = Profiles,
       for_command = Update, using_expr = Some Auth_uid_eq_user_id, with_check_expr = None\<rparr>,
      \<lparr>policy_name = ''Users can view their own messages'', on_table = Networking_messages,
       for_command = Select, using_expr = Some Auth_uid_eq_user_id, with_check_expr = None\<rparr>,
      \<lparr>policy_name = ''Users can create their own messages'', on_table = Networking_messages,
       for_command = Insert, using_expr = None, with_check_expr = Some Auth_uid_eq_user_id\<rparr>,
      \<lparr>policy_name = ''Users can update their own messages'', on_table = Networking_messages,
       for_command = Update, using_expr = Some Auth_uid_eq_user_id, with_check_expr = None\<rparr>,
      \<lparr>policy_name = ''Users can delete their own messages'', on_table = Networking_messages,
       for_command = Delete, using_expr = Some Auth_uid_eq_user_id, with_check_expr = None\<rparr>,
      \<lparr>policy_name = ''Users can view their own analytics'', on_table = Message_analytics,
       for_command = Select, using_expr = Some Auth_uid_eq_user_id, with_check_expr = None\<rparr>,
      \<lparr>policy_name = ''Users can create their own analytics'', on_table = Message_analytics,
       for_command = Insert, using_expr = None, with_check_expr = Some Auth_uid_eq_user_id\<rparr>]"

text \<open>
  SQL's three-valued comparison: \<open>auth.uid()\<close> is NULL (\<open>None\<close>) for a request without
  a signed-in user, and then the comparison is NULL; \<open>user_id\<close> is NOT NULL in all three
  tables.
\<close>

fun eval_expr :: "policy_expr \<Rightarrow> uuid option \<Rightarrow> uuid \<Rightarrow> bool option" where
  "eval_expr Auth_uid_eq_user_id uid owner =
     (case uid of None \<Rightarrow> None | Some u \<Rightarrow> Some (u = owner))"

text \<open>
  PostgreSQL's rule for a table with row-level security enabled and permissive policies
  only: an existing row is visible to a command when the USING expression of some policy
  for that table and command is true; a new row is accepted when the WITH CHECK expression
  of some such policy is true, where a policy without WITH CHECK is checked by its USING
  expression. With no policy for the command, nothing passes.
\<close>

definition using_passes :: "table_name \<Rightarrow> command \<Rightarrow> uuid option \<Rightarrow> uuid \<Rightarrow> bool" where
  "using_passes t c uid owner =
     list_ex (\<lambda>p. on_table p = t \<and> for_command p = c \<and>
                  (case using_expr p of
                     Some e \<Rightarrow> eval_expr e uid owner = Some True
                   | None \<Rightarrow> False))
       policies"

definition check_passes :: "table_name \<Rightarrow> command \<Rightarrow> uuid option \<Rightarrow> uuid \<Rightarrow> bool" where
  "check_passes t c uid owner =
     list_ex (\<lambda>p. on_table p = t \<and> for_command p = c \<and>
                  (case with_check_expr p of
                     Some e \<Rightarrow> eval_expr e uid owner = Some True
                   | None \<Rightarrow>
                       (case using_expr p of
                          Some e \<Rightarrow> eval_expr e uid owner = Some True
                        | None \<Rightarrow> False)))
       policies"

text \<open>
  Whether the policies let a user carry out a command: SELECT and DELETE concern an
  existing row, INSERT a new row, UPDATE an existing row and the row that replaces it.
  The rows are given by their \<open>user_id\<close>, the only column the policies read.
\<close>

fun permits :: "table_name \<Rightarrow> command \<Rightarrow> uuid option \<Rightarrow> uuid \<Rightarrow> uuid \<Rightarrow> bool" where
  "permits t Select uid old new = using_passes t Select uid old"
| "permits t Insert uid old new = check_passes t Insert uid new"
| "permits t Update uid old new =
     (using_passes t Update uid old \<and> check_passes t Update uid new)"
| "permits t Delete uid old new = using_passes t Delete uid old"

subsection \<open>The table \<open>networking_messages\<close>\<close>

text \<open>
  The columns that the interface \<open>NetworkingMessage\<close> of the history component names,
  with the types it gives them (\<open>id\<close>, \<open>company\<close> and \<open>purpose\<close> carry a suffix), and
  the full row of the table. The references to \<open>auth.users\<close> are not modelled.
\<close>

record NetworkingMessage =
  id_nm :: uuid
  message_type :: ustring
  recipient_name :: ustring
  recipient_title :: "ustring option"
  company_nm :: ustring
  purpose_nm :: "ustring option"
  generated_message :: ustring
  is_favorite :: bool
  created_at :: timestamp

record networking_messages_row = NetworkingMessage +
  user_id :: uuid
  updated_at :: timestamp

text \<open>The CHECK constraint of the column \<open>message_type\<close>.\<close>

definition allowed_message_types :: "ustring list" where
  "allowed_message_types =
     [lit ''linkedin'', lit ''informational'', lit ''recruiter-followup'', lit ''mentor-request'']"

definition message_type_check :: "networking_messages_row \<Rightarrow> bool" where
  "message_type_check r = (message_type r \<in> set allowed_message_types)"

datatype db_error = Rls_violation | Check_violation | Unique_violation | Request_failed

text \<open>
  Who runs a statement: a client of the API, subject to the policies, with its
  \<open>auth.uid()\<close>; or a role that bypasses row-level security.
\<close>

datatype db_role = Client "uuid option" | Bypass_rls

fun row_visible :: "db_role \<Rightarrow> command \<Rightarrow> networking_messages_row \<Rightarrow> bool" where
  "row_visible (Client uid) c r = using_passes Networking_messages c uid (user_id r)"
| "row_visible Bypass_rls c r = True"

fun row_accepted :: "db_role \<Rightarrow> command \<Rightarrow> networking_messages_row \<Rightarrow> bool" where
  "row_accepted (Client uid) c r = check_passes Networking_messages c uid (user_id r)"
| "row_accepted Bypass_rls c r = True"

text \<open>
  INSERT of one row (its defaults filled in): the policy's WITH CHECK, the CHECK
  constraint, the primary key.
\<close>

definition insert_row ::
  "db_role \<Rightarrow> networking_messages_row \<Rightarrow> networking_messages_row list
     \<Rightarrow> db_error + networking_messages_row list" where
  "insert_row role r tbl =
     (if \<not> row_accepted role Insert r then Inl Rls_violation
      else if \<not> message_type_check r then Inl Check_violation
      else if id_nm r \<in> set (map id_nm tbl) then Inl Unique_violation
      else Inr (tbl @ [r]))"

text \<open>
  UPDATE ... SET ... WHERE ...: the rows are processed one after the other. A row that
  satisfies the WHERE condition and is visible to the role is replaced by its new version,
  in which the trigger \<open>update_networking_messages_updated_at\<close> has set \<open>updated_at\<close> to
  \<open>now()\<close>. The new version is checked in this order: the policy's WITH CHECK, the CHECK
  constraint, and the primary key against the rows as they stand at that moment (the new
  versions of the rows already processed and the rows still to be processed). The first
  check that fails aborts the statement.
\<close>

fun update_scan ::
  "db_role \<Rightarrow> timestamp \<Rightarrow> (networking_messages_row \<Rightarrow> bool)
     \<Rightarrow> (networking_messages_row \<Rightarrow> networking_messages_row)
     \<Rightarrow> networking_messages_row list \<Rightarrow> networking_messages_row list
     \<Rightarrow> db_error + networking_messages_row list" where
  "update_scan role now wh setf seen [] = Inr seen"
| "update_scan role now wh setf seen (r # todo) =
     (if wh r \<and> row_visible role Update r
      then
        (let new_row = (setf r)\<lparr>updated_at := now\<rparr>
         in if \<not> row_accepted role Update new_row then Inl Rls_violation
            else if \<not> message_type_check new_row then Inl Check_violation
            else if id_nm new_row \<in> set (map id_nm (seen @ todo)) then Inl Unique_violation
            else update_scan role now wh setf (seen @ [new_row]) todo)
      else update_scan role now wh setf (seen @ [r]) todo)"

definition update_rows ::
  "db_role \<Rightarrow> timestamp \<Rightarrow> (networking_messages_row \<Rightarrow> bool)
     \<Rightarrow> (networking_messages_row \<Rightarrow> networking_messages_row)
     \<Rightarrow> networking_messages_row list \<Rightarrow> db_error + networking_messages_row list" where
  "update_rows role now wh setf tbl = update_scan role now wh setf [] tbl"

definition delete_rows ::
  "db_role \<Rightarrow> (networking_messages_row \<Rightarrow> bool) \<Rightarrow> networking_messages_row list
     \<Rightarrow> networking_messages_row list" where
  "delete_rows role wh tbl = filter (\<lambda>r. \<not> (wh r \<and> row_visible role Delete r)) tbl"

text \<open>The statements that change the table, and the tables they lead to from the empty one.\<close>

datatype statement =
  Insert_stmt networking_messages_row
| Update_stmt timestamp "networking_messages_row \<Rightarrow> bool"
    "networking_messages_row \<Rightarrow> networking_messages_row"
| Delete_stmt "networking_messages_row \<Rightarrow> bool"

fun exec :: "db_role \<Rightarrow> statement \<Rightarrow> networking_messages_row list
     \<Rightarrow> db_error + networking_messages_row list" where
  "exec role (Insert_stmt r) tbl = insert_row role r tbl"
| "exec role (Update_stmt now wh setf) tbl = update_rows role now wh setf tbl"
| "exec role (Delete_stmt wh) tbl = Inr (delete_rows role wh tbl)"

text \<open>A failed statement leaves the table as it was.\<close>

fun exec_all :: "(db_role \<times> statement) list \<Rightarrow> networking_messages_row list
     \<Rightarrow> networking_messages_row list" where
  "exec_all [] tbl = tbl"
| "exec_all ((role, st) # rest) tbl =
     (case exec role st tbl of Inl e \<Rightarrow> exec_all rest tbl | Inr tbl' \<Rightarrow> exec_all rest tbl')"


section \<open>The message history component (unnamed source part 1)\<close>

record message_analytics_row =
  id_ma :: uuid
  user_id_ma :: uuid
  message_id :: "uuid option"
  action_type :: ustring
  created_at_ma :: timestamp

record toast =
  title :: ustring
  description :: ustring
  destructive :: bool

text \<open>
  The world of \<open>toggleFavorite\<close>: the two tables, the component's \<open>messages\<close> state (the
  rows that \<open>select('*')\<close> loaded), and the toasts shown.
\<close>

record world =
  networking_messages :: "networking_messages_row list"
  message_analytics :: "message_analytics_row list"
  messages :: "networking_messages_row list"
  toasts :: "toast list"

text \<open>
  What one call meets: the signed-in user (\<open>auth.uid()\<close> of the requests, and the user
  that \<open>supabase.auth.getUser()\<close> reports), whether the update request reaches the
  database, the database's \<open>now()\<close>, and the \<open>id\<close> that the inserted analytics row gets.
\<close>

record call_env =
  auth_uid :: "uuid option"
  request_ok :: bool
  db_now :: timestamp
  new_analytics_id :: uuid

text \<open>
  The insert into \<open>message_analytics\<close>; its outcome is not inspected. Without a user the
  row has no \<open>user_id\<close> and is rejected; the row's \<open>message_id\<close> must be that of a stored
  message.
\<close>

definition track_favorited :: "call_env \<Rightarrow> uuid \<Rightarrow> world \<Rightarrow> message_analytics_row list" where
  "track_favorited env mid w =
     (case auth_uid env of
        None \<Rightarrow> message_analytics w
      | Some u \<Rightarrow>
          if check_passes Message_analytics Insert (auth_uid env) u
             \<and> mid \<in> set (map id_nm (networking_messages w))
             \<and> new_analytics_id env \<notin> set (map id_ma (message_analytics w))
          then message_analytics w @
                 [\<lparr>id_ma = new_analytics_id env, user_id_ma = u, message_id = Some mid,
                   action_type = lit ''favorited'', created_at_ma = db_now env\<rparr>]
          else message_analytics w)"

text \<open>
  The awaited update request of \<open>toggleFavorite\<close>: \<open>Inl\<close> is the \<open>error\<close> it reports,
  \<open>Inr\<close> the table after the update.
\<close>

definition update_favorite ::
  "call_env \<Rightarrow> networking_messages_row \<Rightarrow> world
     \<Rightarrow> db_error + networking_messages_row list" where
  "update_favorite env msg w =
     (if request_ok env
      then update_rows (Client (auth_uid env)) (db_now env)
             (\<lambda>r. id_nm r = id_nm msg)
             (\<lambda>r. r\<lparr>is_favorite := \<not> is_favorite msg\<rparr>)
             (networking_messages w)
      else Inl Request_failed)"

definition toggleFavorite :: "call_env \<Rightarrow> networking_messages_row \<Rightarrow> world \<Rightarrow> world" where
  "toggleFavorite env msg w =
     (case update_favorite env msg w of
        Inl e \<Rightarrow>
          w\<lparr>toasts := toasts w @
               [\<lparr>title = lit ''Error'',
                 description = lit ''Failed to update favorite status.'',
                 destructive = True\<rparr>]\<rparr>
      | Inr tbl' \<Rightarrow>
          (let w1 = w\<lparr>networking_messages := tbl'\<rparr>;
               w2 = w1\<lparr>messages :=
                      map (\<lambda>m. if id_nm m = id_nm msg
                                then m\<lparr>is_favorite := \<not> is_favorite m\<rparr> else m)
                        (messages w1)\<rparr>;
               w3 = w2\<lparr>message_analytics := track_favorited env (id_nm msg) w2\<rparr>
           in w3\<lparr>toasts := toasts w3 @
                  [\<lparr>title = (if is_favorite msg then lit ''Removed from favorites''
                              else lit ''Added to favorites''),
                    description = (if is_favorite msg
                                   then lit ''Message removed from your favorites.''
                                   else lit ''Message saved to your favorites.''),
                    destructive = False\<rparr>]\<rparr>))"


section \<open>Notions used to state the properties\<close>

text \<open>
  A message is \<open>from_valid_form\<close> when it is the rendering of a template for form data
  whose recipient name and company are both non-empty.
\<close>

definition from_valid_form :: "ustring \<Rightarrow> bool" where
  "from_valid_form m =
     (\<exists>d. recipientName d \<noteq> [] \<and> company d \<noteq> [] \<and>
           m = render (field_of d) (template_pattern (messageType d)))"

text \<open>A text contains a name and, somewhere after it, a company.\<close>

definition embeds_in_order :: "ustring \<Rightarrow> ustring \<Rightarrow> ustring \<Rightarrow> bool" where
  "embeds_in_order n c m = (\<exists>pre mid post. m = pre @ n @ mid @ c @ post)"

text \<open>
  Reading the path \<open>choices[0].message.content\<close> in the upstream JSON, where a step from
  a value that has no such json_member gives \<open>undefined\<close>.
\<close>

fun json_member :: "json option \<Rightarrow> ustring \<Rightarrow> json option" where
  "json_member (Some (JObj kvs)) k = map_of (rev kvs) k"
| "json_member v k = None"

fun json_first :: "json option \<Rightarrow> json option" where
  "json_first (Some (JArr xs)) = (case xs of [] \<Rightarrow> None | x # _ \<Rightarrow> Some x)"
| "json_first (Some (JStr s)) = (case s of [] \<Rightarrow> None | c # _ \<Rightarrow> Some (JStr [c]))"
| "json_first (Some (JObj kvs)) = map_of (rev kvs) (lit ''0'')"
| "json_first v = None"

definition choices0_message :: "json \<Rightarrow> json option" where
  "choices0_message data =
     json_member (json_first (json_member (Some data) (lit ''choices''))) (lit ''message'')"

definition message_content :: "json \<Rightarrow> json option" where
  "message_content data = json_member (choices0_message data) (lit ''content'')"

text \<open>The content is empty after trimming; a missing or falsy content counts as empty.\<close>

definition content_empty :: "json \<Rightarrow> bool" where
  "content_empty data =
     (case message_content data of
        Some (JStr s) \<Rightarrow> trim s = []
      | v \<Rightarrow> \<not> truthy v)"

text \<open>
  The failures that the specification lists: the key is not configured, or the upstream
  call was made and its response is not ok, or lacks \<open>choices[0].message\<close>, or has a
  content that is empty after trimming.
\<close>

definition step_fails ::
  "ustring option \<Rightarrow> (chat_request \<Rightarrow> js_error + fetch_response) \<Rightarrow> request \<Rightarrow> bool" where
  "step_fails openAIApiKey fetch req =
     (\<not> truthy_opt openAIApiKey \<or>
      (case req_json req of
         Inl e \<Rightarrow> False
       | Inr b \<Rightarrow>
           (case fetch (chat_request_of (to_str openAIApiKey) b) of
              Inl e \<Rightarrow> False
            | Inr response \<Rightarrow>
                \<not> resp_ok response \<or>
                (case resp_json response of
                   Inl e \<Rightarrow> False
                 | Inr data \<Rightarrow> \<not> truthy (choices0_message data) \<or> content_empty data))))"


section \<open>Concrete inputs\<close>

definition example_form :: CoachState where
  "example_form =
     \<lparr>messageData = \<lparr>recipientName = lit ''Ann'', recipientTitle = [], company = lit ''Acme'',
        purpose = [], messageType = Linkedin\<rparr>,
      generatedMessage = [], copied = False, activeStep = 2\<rparr>"

definition example_runtime :: runtime where
  "example_runtime =
     \<lparr>null_read_msg = lit ''Cannot read properties of null'',
      not_a_function_msg = lit ''generatedMessage.trim is not a function''\<rparr>"

definition example_request :: request where
  "example_request =
     \<lparr>req_method = lit ''POST'',
      req_json = Inr \<lparr>messageType_rq = Some (lit ''linkedin''),
                      recipientName_rq = Some (lit ''Ann''), recipientTitle_rq = None,
                      company_rq = Some (lit ''Acme''), purpose_rq = None\<rparr>\<rparr>"

text \<open>An upstream that answers every call with the content \<open>" Hello "\<close>.\<close>

definition example_data :: json where
  "example_data =
     JObj [(lit ''choices'',
            JArr [JObj [(lit ''message'', JObj [(lit ''content'', JStr (lit '' Hello ''))])]])]"

definition example_response :: fetch_response where
  "example_response =
     \<lparr>resp_ok = True, resp_status = 200, resp_statusText = lit ''OK'',
      resp_text = Inr [], resp_json = Inr example_data\<rparr>"

text \<open>An upstream that refuses every call.\<close>

definition busy_response :: fetch_response where
  "busy_response =
     \<lparr>resp_ok = False, resp_status = 429, resp_statusText = lit ''Too Many Requests'',
      resp_text = Inr (lit ''rate limited''), resp_json = Inl (Error (lit ''not JSON''))\<rparr>"

text \<open>A stored message of user \<open>u1\<close>, loaded into the history list.\<close>

definition example_row :: networking_messages_row where
  "example_row =
     \<lparr>id_nm = lit ''m1'', message_type = lit ''linkedin'', recipient_name = lit ''Ann'',
      recipient_title = None, company_nm = lit ''Acme'', purpose_nm = None,
      generated_message = lit ''Hi Ann'', is_favorite = False,
      created_at = lit ''2025-09-10T11:30:17Z'',
      user_id = lit ''u1'', updated_at = lit ''2025-09-10T11:30:17Z''\<rparr>"

definition example_world :: world where
  "example_world =
     \<lparr>networking_messages = [example_row], message_analytics = [],
      messages = [example_row], toasts = []\<rparr>"

definition example_env :: call_env where
  "example_env =
     \<lparr>auth_uid = Some (lit ''u1''), request_ok = True,
      db_now = lit ''2025-09-12T08:00:00Z'', new_analytics_id = lit ''a1''\<rparr>"


section \<open>Evaluating literals\<close>

lemma lit_Cons: "lit (c # cs) = of_char c # lit cs"
  by (simp add: lit_def)

lemma lit_Nil: "lit [] = []"
  by (simp add: lit_def)

lemmas lit_eval = lit_Cons lit_Nil

declare dec.simps [simp del]

section \<open>Templates are fixed patterns\<close>

text \<open>Each template function renders the pattern of its template literal.\<close>

lemma messageTemplates_render:
  "messageTemplates t d = render (field_of d) (template_pattern t)"
proof (cases t)
  case Linkedin
  then show ?thesis by (simp add: linkedin_template_def linkedin_pattern_def)
next
  case Informational
  then show ?thesis by (simp add: informational_template_def informational_pattern_def)
next
  case RecruiterFollowup
  then show ?thesis
    by (simp add: recruiter_followup_template_def recruiter_followup_pattern_def)
next
  case MentorRequest
  then show ?thesis by (simp add: mentor_request_template_def mentor_request_pattern_def)
qed

lemma messageTemplates_p0_render:
  "messageTemplates_p0 t d = render (field_of_p0 d) (template_pattern_p0 t)"
proof (cases t)
  case Linkedin
  then show ?thesis by (simp add: linkedin_template_p0_def linkedin_pattern_p0_def)
next
  case Informational
  then show ?thesis by (simp add: informational_template_p0_def informational_pattern_p0_def)
next
  case RecruiterFollowup
  then show ?thesis
    by (simp add: recruiter_followup_template_p0_def recruiter_followup_pattern_p0_def)
next
  case MentorRequest
  then show ?thesis by (simp add: mentor_request_template_p0_def mentor_request_pattern_p0_def)
qed

lemma template_pattern_fields:
  "fields_of (template_pattern t) =
     (case t of
        Linkedin \<Rightarrow> [RecipientName, Company, Purpose]
      | Informational \<Rightarrow> [RecipientName, Company, Purpose]
      | RecruiterFollowup \<Rightarrow> [RecipientName, Company, Purpose, Company]
      | MentorRequest \<Rightarrow> [RecipientName, Company, Purpose])"
  by (cases t)
    (simp_all add: linkedin_pattern_def informational_pattern_def
       recruiter_followup_pattern_def mentor_request_pattern_def)

lemma template_pattern_p0_fields:
  "fields_of (template_pattern_p0 t) =
     (case t of
        Linkedin \<Rightarrow>
          [RecipientName_p0, StudentName_p0, Major_p0, University_p0, Company_p0, Purpose_p0,
           StudentName_p0]
      | Informational \<Rightarrow>
          [Major_p0, University_p0, RecipientName_p0, StudentName_p0, Major_p0, University_p0,
           Company_p0, Purpose_p0, StudentName_p0, University_p0]
      | RecruiterFollowup \<Rightarrow>
          [StudentName_p0, RecipientName_p0, Company_p0, Purpose_p0, Company_p0,
           StudentName_p0, University_p0]
      | MentorRequest \<Rightarrow>
          [Major_p0, University_p0, RecipientName_p0, StudentName_p0, Major_p0, University_p0,
           Company_p0, Purpose_p0, StudentName_p0, University_p0])"
  by (cases t)
    (simp_all add: linkedin_pattern_p0_def informational_pattern_p0_def
       recruiter_followup_pattern_p0_def mentor_request_pattern_p0_def)

text \<open>
  C1 (amended): for every input and each of the four message types, the template
  function's output is the template's fixed literal segments interleaved with fields of
  the input at fixed positions, with no other dependence on the input. In
  NetworkingCoach.tsx the fields are \<open>recipientName\<close>, \<open>company\<close> and \<open>purpose\<close>, in this
  order (\<open>company\<close> a second time in the recruiter follow-up). In the other form of the
  component they are these three together with \<open>studentName\<close>, \<open>university\<close> and, except
  in the recruiter follow-up, \<open>major\<close>, in the orders listed.
\<close>

theorem templates_are_fixed_patterns:
  "messageTemplates t d = render (field_of d) (template_pattern t) \<and>
   fields_of (template_pattern t) =
     (case t of
        Linkedin \<Rightarrow> [RecipientName, Company, Purpose]
      | Informational \<Rightarrow> [RecipientName, Company, Purpose]
      | RecruiterFollowup \<Rightarrow> [RecipientName, Company, Purpose, Company]
      | MentorRequest \<Rightarrow> [RecipientName, Company, Purpose]) \<and>
   messageTemplates_p0 t d0 = render (field_of_p0 d0) (template_pattern_p0 t) \<and>
   fields_of (template_pattern_p0 t) =
     (case t of
        Linkedin \<Rightarrow>
          [RecipientName_p0, StudentName_p0, Major_p0, University_p0, Company_p0, Purpose_p0,
           StudentName_p0]
      | Informational \<Rightarrow>
          [Major_p0, University_p0, RecipientName_p0, StudentName_p0, Major_p0, University_p0,
           Company_p0, Purpose_p0, StudentName_p0, University_p0]
      | RecruiterFollowup \<Rightarrow>
          [StudentName_p0, RecipientName_p0, Company_p0, Purpose_p0, Company_p0,
           StudentName_p0, University_p0]
      | MentorRequest \<Rightarrow>
          [Major_p0, University_p0, RecipientName_p0, StudentName_p0, Major_p0, University_p0,
           Company_p0, Purpose_p0, StudentName_p0, University_p0])"
  using messageTemplates_render [of t d] template_pattern_fields [of t]
    messageTemplates_p0_render [of t d0] template_pattern_p0_fields [of t]
  by (rule conjI [OF _ conjI [OF _ conjI]])

text \<open>
  C1 as stated fails on the other form of the component: two inputs with the same
  \<open>recipientName\<close>, \<open>company\<close> and \<open>purpose\<close> that differ in \<open>studentName\<close> give
  different LinkedIn messages.
\<close>

theorem template_p0_reads_studentName:
  "messageTemplates_p0 Linkedin
     \<lparr>recipientName_p0 = lit ''Ann'', recipientTitle_p0 = [], company_p0 = lit ''Acme'',
      studentName_p0 = lit ''Bo'', university_p0 = [], major_p0 = [], purpose_p0 = [],
      messageType_p0 = Linkedin\<rparr>
   \<noteq> messageTemplates_p0 Linkedin
     \<lparr>recipientName_p0 = lit ''Ann'', recipientTitle_p0 = [], company_p0 = lit ''Acme'',
      studentName_p0 = lit ''Cy'', university_p0 = [], major_p0 = [], purpose_p0 = [],
      messageType_p0 = Linkedin\<rparr>"
  by (simp add: linkedin_template_p0_def lit_eval)

text \<open>Hence each template function is a fixed pattern of its fields.\<close>

lemma messageTemplates_fixed: "fixed_pattern field_of (messageTemplates t)"
  unfolding fixed_pattern_def using messageTemplates_render by blast

lemma messageTemplates_p0_fixed: "fixed_pattern field_of_p0 (messageTemplates_p0 t)"
  unfolding fixed_pattern_def using messageTemplates_p0_render by blast

lemma templates_ignore_title:
  "messageTemplates t (d\<lparr>recipientTitle := x\<rparr>) = messageTemplates t d"
  by (cases t)
    (simp_all add: linkedin_template_def informational_template_def
       recruiter_followup_template_def mentor_request_template_def)

lemma templates_p0_ignore_title:
  "messageTemplates_p0 t (d\<lparr>recipientTitle_p0 := x\<rparr>) = messageTemplates_p0 t d"
  by (cases t)
    (simp_all add: linkedin_template_p0_def informational_template_p0_def
       recruiter_followup_template_p0_def mentor_request_template_p0_def)

text \<open>
  C8: two states whose form data differ only in \<open>recipientTitle\<close> (and that may differ in
  everything outside the form data) get the same generated message from
  \<open>handleGenerate\<close>, whatever the message type; the same holds in the other form of the
  component.
\<close>

theorem recipientTitle_never_flows:
  "generatedMessage (handleGenerate (s\<lparr>messageData := d\<lparr>recipientTitle := x\<rparr>\<rparr>)) =
   generatedMessage (handleGenerate (s'\<lparr>messageData := d\<lparr>recipientTitle := y\<rparr>\<rparr>)) \<and>
   generatedMessage_p0
     (handleGenerate_p0 (s0\<lparr>messageData_p0 := d0\<lparr>recipientTitle_p0 := x\<rparr>\<rparr>)) =
   generatedMessage_p0
     (handleGenerate_p0 (s0'\<lparr>messageData_p0 := d0\<lparr>recipientTitle_p0 := y\<rparr>\<rparr>))"
proof -
  have "generatedMessage (handleGenerate (s\<lparr>messageData := d\<lparr>recipientTitle := x\<rparr>\<rparr>)) =
      messageTemplates (messageType d) d" for s x
    by (simp add: handleGenerate_def Let_def templates_ignore_title)
  moreover have "generatedMessage_p0
     (handleGenerate_p0 (s0\<lparr>messageData_p0 := d0\<lparr>recipientTitle_p0 := x\<rparr>\<rparr>)) =
      messageTemplates_p0 (messageType_p0 d0) d0" for s0 x
    by (simp add: handleGenerate_p0_def Let_def templates_p0_ignore_title)
  ultimately show ?thesis by simp
qed

section \<open>The form and its progress indicator\<close>

lemma generate_enabled_iff:
  "(\<not> generate_disabled s) =
     (recipientName (messageData s) \<noteq> [] \<and> company (messageData s) \<noteq> [])"
  by (simp add: generate_disabled_def isFormValid_def truthy_str_def)

lemma render_first_field:
  assumes "fields_of ps = f # fs"
  shows "\<exists>pre ps'. render get ps = pre @ get f @ render get ps' \<and> fields_of ps' = fs"
  using assms
proof (induction ps)
  case Nil
  then show ?case by simp
next
  case (Cons p ps)
  show ?case
  proof (cases p)
    case (Lit s)
    with Cons.prems have "fields_of ps = f # fs" by simp
    with Cons.IH obtain pre ps'
      where "render get ps = pre @ get f @ render get ps'" "fields_of ps' = fs"
      by blast
    with Lit have "render get (p # ps) = (s @ pre) @ get f @ render get ps' \<and>
        fields_of ps' = fs"
      by simp
    then show ?thesis by blast
  next
    case (Field g)
    with Cons.prems have "g = f" "fields_of ps = fs" by simp_all
    with Field have "render get (p # ps) = [] @ get f @ render get ps \<and> fields_of ps = fs"
      by simp
    then show ?thesis by blast
  qed
qed

lemma template_pattern_starts:
  "\<exists>fs. fields_of (template_pattern t) = RecipientName # Company # fs"
  using template_pattern_fields [of t] by (cases t) simp_all

lemma template_embeds:
  "embeds_in_order (recipientName d) (company d) (render (field_of d) (template_pattern t))"
proof -
  obtain fs where fs: "fields_of (template_pattern t) = RecipientName # Company # fs"
    using template_pattern_starts by blast
  from render_first_field [OF fs, of "field_of d"] obtain pre ps'
    where 1: "render (field_of d) (template_pattern t) =
                pre @ field_of d RecipientName @ render (field_of d) ps'"
      and ps': "fields_of ps' = Company # fs"
    by blast
  from render_first_field [OF ps', of "field_of d"] obtain mid ps''
    where 2: "render (field_of d) ps' = mid @ field_of d Company @ render (field_of d) ps''"
    by blast
  from 1 2 have "render (field_of d) (template_pattern t) =
      pre @ recipientName d @ mid @ company d @ render (field_of d) ps''"
    by simp
  then show ?thesis unfolding embeds_in_order_def by blast
qed

lemma generate_step:
  assumes "\<not> generate_disabled s"
  shows "generatedMessage (step ClickGenerate s) =
           render (field_of (messageData s)) (template_pattern (messageType (messageData s)))"
  using assms by (simp add: handleGenerate_def Let_def messageTemplates_render)

lemma embeds_nonempty:
  assumes "embeds_in_order n c m" and "n \<noteq> []"
  shows "m \<noteq> []"
  using assms by (auto simp: embeds_in_order_def)

lemma run_snoc: "run (es @ [e]) = step e (run es)"
  by (simp add: run_def)

lemma step_from_valid_form:
  assumes "generatedMessage s = [] \<or> from_valid_form (generatedMessage s)"
  shows "generatedMessage (step e s) = [] \<or> from_valid_form (generatedMessage (step e s))"
proof (cases e)
  case ClickGenerate
  show ?thesis
  proof (cases "generate_disabled s")
    case True
    with assms ClickGenerate show ?thesis by simp
  next
    case False
    then have "recipientName (messageData s) \<noteq> [] \<and> company (messageData s) \<noteq> []"
      using generate_enabled_iff by blast
    moreover have "generatedMessage (step e s) =
        render (field_of (messageData s)) (template_pattern (messageType (messageData s)))"
      using False ClickGenerate generate_step by simp
    ultimately have "from_valid_form (generatedMessage (step e s))"
      unfolding from_valid_form_def by blast
    then show ?thesis by blast
  qed
next
  case (ClickCopy clipboard)
  with assms show ?thesis by (cases clipboard) (simp_all add: handleCopy_def)
qed (use assms in \<open>simp_all add: Let_def\<close>)

lemma run_from_valid_form:
  "generatedMessage (run es) = [] \<or> from_valid_form (generatedMessage (run es))"
proof (induction es rule: rev_induct)
  case Nil
  show ?case by (simp add: run_def initial_def)
next
  case (snoc e es)
  then show ?case by (simp add: run_snoc step_from_valid_form)
qed

text \<open>
  C9: the Generate Message button is enabled exactly when \<open>recipientName\<close> and \<open>company\<close>
  are both non-empty, and a click on the disabled button changes nothing. A click on the
  enabled button generates the rendering of the selected template for the form data,
  which is not empty and contains the (non-empty) recipient name and, after it, the
  (non-empty) company. In every state that the events can reach, the message shown, if
  there is one, is such a rendering for form data with a non-empty recipient name and a
  non-empty company. The button is enabled in a reachable state whose \<open>recipientTitle\<close>
  and \<open>purpose\<close> are empty.
\<close>

theorem generate_needs_name_and_company:
  "((\<not> generate_disabled s) =
      (recipientName (messageData s) \<noteq> [] \<and> company (messageData s) \<noteq> [])) \<and>
   (generate_disabled s \<longrightarrow> step ClickGenerate s = s) \<and>
   (\<not> generate_disabled s \<longrightarrow>
      generatedMessage (step ClickGenerate s) =
        render (field_of (messageData s)) (template_pattern (messageType (messageData s))) \<and>
      embeds_in_order (recipientName (messageData s)) (company (messageData s))
        (generatedMessage (step ClickGenerate s)) \<and>
      generatedMessage (step ClickGenerate s) \<noteq> []) \<and>
   (generatedMessage (run es) \<noteq> [] \<longrightarrow> from_valid_form (generatedMessage (run es))) \<and>
   (let s1 = run [ChangeRecipientName (lit ''Ann''), ChangeCompany (lit ''Acme'')]
    in \<not> generate_disabled s1 \<and> recipientTitle (messageData s1) = [] \<and>
       purpose (messageData s1) = [])"
proof -
  have gen: "generatedMessage (step ClickGenerate s) =
        render (field_of (messageData s)) (template_pattern (messageType (messageData s))) \<and>
      embeds_in_order (recipientName (messageData s)) (company (messageData s))
        (generatedMessage (step ClickGenerate s)) \<and>
      generatedMessage (step ClickGenerate s) \<noteq> []"
    if en: "\<not> generate_disabled s"
  proof -
    have m: "generatedMessage (step ClickGenerate s) =
        render (field_of (messageData s)) (template_pattern (messageType (messageData s)))"
      using en by (rule generate_step)
    have e: "embeds_in_order (recipientName (messageData s)) (company (messageData s))
        (generatedMessage (step ClickGenerate s))"
      unfolding m by (rule template_embeds)
    have "recipientName (messageData s) \<noteq> []"
      using en generate_enabled_iff by blast
    with e have "generatedMessage (step ClickGenerate s) \<noteq> []"
      by (rule embeds_nonempty)
    with m e show ?thesis by blast
  qed
  have ex: "let s1 = run [ChangeRecipientName (lit ''Ann''), ChangeCompany (lit ''Acme'')]
    in \<not> generate_disabled s1 \<and> recipientTitle (messageData s1) = [] \<and>
       purpose (messageData s1) = []"
    by (simp add: run_def initial_def Let_def truthy_str_def generate_disabled_def
          isFormValid_def lit_eval)
  have dis: "step ClickGenerate s = s" if "generate_disabled s"
    using that by simp
  from generate_enabled_iff [of s] dis gen run_from_valid_form [of es] ex
  show ?thesis by blast
qed

text \<open>A name and a company are typed and a message is generated.\<close>

theorem generate_needs_name_and_company_witness:
  "\<not> generate_disabled (run [ChangeRecipientName (lit ''Ann''), ChangeCompany (lit ''Acme'')]) \<and>
   generatedMessage
     (run [ChangeRecipientName (lit ''Ann''), ChangeCompany (lit ''Acme''), ClickGenerate])
     \<noteq> [] \<and>
   embeds_in_order (lit ''Ann'') (lit ''Acme'')
     (generatedMessage
        (run [ChangeRecipientName (lit ''Ann''), ChangeCompany (lit ''Acme''), ClickGenerate])) \<and>
   from_valid_form
     (generatedMessage
        (run [ChangeRecipientName (lit ''Ann''), ChangeCompany (lit ''Acme''), ClickGenerate]))"
proof -
  let ?es = "[ChangeRecipientName (lit ''Ann''), ChangeCompany (lit ''Acme'')]"
  have en: "\<not> generate_disabled (run ?es)"
    by (simp add: run_def initial_def Let_def truthy_str_def generate_disabled_def
          isFormValid_def lit_eval)
  have r: "run [ChangeRecipientName (lit ''Ann''), ChangeCompany (lit ''Acme''), ClickGenerate] =
      step ClickGenerate (run ?es)"
    using run_snoc [of ?es ClickGenerate] by simp
  have n: "recipientName (messageData (run ?es)) = lit ''Ann''"
    and c: "company (messageData (run ?es)) = lit ''Acme''"
    by (simp_all add: run_def initial_def Let_def truthy_str_def lit_eval)
  from generate_needs_name_and_company
    [of "run ?es" "[ChangeRecipientName (lit ''Ann''), ChangeCompany (lit ''Acme''), ClickGenerate]"]
  have "generatedMessage (step ClickGenerate (run ?es)) \<noteq> [] \<and>
      embeds_in_order (lit ''Ann'') (lit ''Acme'') (generatedMessage (step ClickGenerate (run ?es))) \<and>
      from_valid_form (generatedMessage (step ClickGenerate (run ?es)))"
    using en unfolding r n c by blast
  with en show ?thesis
    unfolding r by blast
qed







text \<open>
  C2 (amended): \<open>handleGenerate\<close> calls nothing: the generated message it shows is the
  selected template applied to the form data, computed in the component, hence a fixed
  pattern of the form's fields for each message type; this holds in both forms of the
  component.
\<close>

theorem handleGenerate_is_local:
  "generatedMessage (handleGenerate s) =
     messageTemplates (messageType (messageData s)) (messageData s) \<and>
   fixed_pattern field_of
     (\<lambda>d. generatedMessage (handleGenerate (s\<lparr>messageData := d\<lparr>messageType := t\<rparr>\<rparr>))) \<and>
   generatedMessage_p0 (handleGenerate_p0 s0) =
     messageTemplates_p0 (messageType_p0 (messageData_p0 s0)) (messageData_p0 s0) \<and>
   fixed_pattern field_of_p0
     (\<lambda>d. generatedMessage_p0
             (handleGenerate_p0 (s0\<lparr>messageData_p0 := d\<lparr>messageType_p0 := t\<rparr>\<rparr>)))"
proof -
  have eq: "generatedMessage (handleGenerate s') =
              messageTemplates (messageType (messageData s')) (messageData s')" for s'
    by (simp add: handleGenerate_def Let_def)
  have eq0: "generatedMessage_p0 (handleGenerate_p0 s') =
               messageTemplates_p0 (messageType_p0 (messageData_p0 s')) (messageData_p0 s')"
    for s'
    by (simp add: handleGenerate_p0_def Let_def)
  have "fixed_pattern field_of (\<lambda>d. messageTemplates t (d\<lparr>messageType := t\<rparr>))"
  proof -
    from messageTemplates_fixed [of t] obtain ps
      where ps: "\<forall>d. messageTemplates t d = render (field_of d) ps"
      unfolding fixed_pattern_def by blast
    have "field_of (d\<lparr>messageType := t\<rparr>) = field_of d" for d
    proof
      fix f show "field_of (d\<lparr>messageType := t\<rparr>) f = field_of d f"
        by (cases f) simp_all
    qed
    with ps have "\<forall>d. messageTemplates t (d\<lparr>messageType := t\<rparr>) = render (field_of d) ps"
      by simp
    then show ?thesis unfolding fixed_pattern_def by blast
  qed
  then have fp: "fixed_pattern field_of
     (\<lambda>d. generatedMessage (handleGenerate (s\<lparr>messageData := d\<lparr>messageType := t\<rparr>\<rparr>)))"
    by (simp add: eq)
  have "fixed_pattern field_of_p0 (\<lambda>d. messageTemplates_p0 t (d\<lparr>messageType_p0 := t\<rparr>))"
  proof -
    from messageTemplates_p0_fixed [of t] obtain ps
      where ps: "\<forall>d. messageTemplates_p0 t d = render (field_of_p0 d) ps"
      unfolding fixed_pattern_def by blast
    have "field_of_p0 (d\<lparr>messageType_p0 := t\<rparr>) = field_of_p0 d" for d
    proof
      fix f show "field_of_p0 (d\<lparr>messageType_p0 := t\<rparr>) f = field_of_p0 d f"
        by (cases f) simp_all
    qed
    with ps
    have "\<forall>d. messageTemplates_p0 t (d\<lparr>messageType_p0 := t\<rparr>) = render (field_of_p0 d) ps"
      by simp
    then show ?thesis unfolding fixed_pattern_def by blast
  qed
  then have fp0: "fixed_pattern field_of_p0
     (\<lambda>d. generatedMessage_p0
             (handleGenerate_p0 (s0\<lparr>messageData_p0 := d\<lparr>messageType_p0 := t\<rparr>\<rparr>)))"
    by (simp add: eq0)
  from eq [of s] fp eq0 [of s0] fp0 show ?thesis by blast
qed

section \<open>The edge function\<close>

lemma truthy_json_member_obj:
  assumes "truthy (json_member v k)"
  shows "\<exists>kvs. v = Some (JObj kvs)"
  using assms by (cases "(v, k)" rule: json_member.cases) (simp_all add: truthy_def)

lemma get_prop_json_member:
  assumes "truthy v"
  shows "get_prop rt v k = Inr (json_member v k)"
  using assms by (cases "(rt, v, k)" rule: get_prop.cases) (simp_all add: truthy_def)

lemma get_index0_first_element:
  assumes "truthy v"
  shows "get_index0 rt v = Inr (json_first v)"
  using assms by (cases "(rt, v)" rule: get_index0.cases) (simp_all add: truthy_def)

lemma json_member_falsy:
  assumes "\<not> truthy v"
  shows "json_member v k = None"
  using assms by (cases "(v, k)" rule: json_member.cases) (simp_all add: truthy_def)

lemma first_element_falsy:
  assumes "\<not> truthy v"
  shows "json_first v = None"
  using assms by (cases v rule: json_first.cases) (simp_all add: truthy_def)


lemma get_prop_not_null:
  assumes "data \<noteq> JNull"
  shows "get_prop rt (Some data) k = Inr (json_member (Some data) k)"
  using assms by (cases data) simp_all

lemma extract_message_eq:
  "extract_message rt data =
     (if data = JNull then Inl (Error (null_read_msg rt))
      else if \<not> truthy (choices0_message data)
        then Inl (Error (lit ''Invalid response structure from OpenAI''))
      else if \<not> truthy (message_content data)
        then Inl (Error (lit ''OpenAI returned an empty message''))
      else
        (case message_content data of
           Some (JStr s) \<Rightarrow>
             if trim s = [] then Inl (Error (lit ''OpenAI returned an empty message''))
             else Inr (trim s)
         | _ \<Rightarrow> Inl (Error (not_a_function_msg rt))))"
proof (cases "data = JNull")
  case True
  then show ?thesis by (simp add: extract_message_def)
next
  case nn: False
  define ch where "ch = json_member (Some data) (lit ''choices'')"
  have g1: "get_prop rt (Some data) (lit ''choices'') = Inr ch"
    unfolding ch_def using nn by (rule get_prop_not_null)
  show ?thesis
  proof (cases "truthy ch")
    case False
    then have "choices0_message data = None"
      unfolding choices0_message_def ch_def [symmetric]
      by (simp add: first_element_falsy)
    then show ?thesis
      using nn g1 False by (simp add: extract_message_def truthy_def)
  next
    case tch: True
    define c0 where "c0 = json_first ch"
    have g2: "get_index0 rt ch = Inr c0"
      unfolding c0_def using tch by (rule get_index0_first_element)
    have m_eq: "choices0_message data = json_member c0 (lit ''message'')"
      by (simp add: choices0_message_def ch_def c0_def)
    show ?thesis
    proof (cases "truthy c0")
      case False
      then have "choices0_message data = None"
        using m_eq by (simp add: json_member_falsy)
      then show ?thesis
        using nn g1 tch g2 False by (simp add: extract_message_def truthy_def)
    next
      case tc0: True
      have g3: "get_prop rt c0 (lit ''message'') = Inr (choices0_message data)"
        using tc0 m_eq by (simp add: get_prop_json_member)
      show ?thesis
      proof (cases "truthy (choices0_message data)")
        case False
        then show ?thesis
          using nn g1 tch g2 tc0 g3 by (simp add: extract_message_def)
      next
        case tm: True
        have g4: "get_prop rt (choices0_message data) (lit ''content'') =
                    Inr (message_content data)"
          using tm by (simp add: get_prop_json_member message_content_def)
        show ?thesis
          using nn g1 tch g2 tc0 g3 tm g4 by (simp add: extract_message_def)
      qed
    qed
  qed
qed

lemma serve_not_options:
  assumes "req_method req \<noteq> lit ''OPTIONS''"
  shows "serve rt key fetch req =
           (case try_block rt key fetch req of
              Inr generated \<Rightarrow> success_response generated
            | Inl e \<Rightarrow> error_response (message e))"
  using assms by (simp add: serve_def)

lemma extract_message_fails:
  assumes "\<not> truthy (choices0_message data) \<or> content_empty data"
  shows "\<exists>e. extract_message rt data = Inl e"
proof (cases "data = JNull \<or> \<not> truthy (choices0_message data) \<or> \<not> truthy (message_content data)")
  case True
  then show ?thesis by (auto simp: extract_message_eq)
next
  case False
  with assms have "content_empty data" by blast
  with False obtain s where "message_content data = Some (JStr s)" "trim s = []"
    by (auto simp: content_empty_def split: option.splits json.splits)
  with False show ?thesis by (simp add: extract_message_eq)
qed

lemma try_block_fails:
  assumes "step_fails key fetch req"
  shows "\<exists>e. try_block rt key fetch req = Inl e"
proof (cases "req_json req")
  case (Inl e)
  then show ?thesis by (simp add: try_block_def)
next
  case b: (Inr b)
  show ?thesis
  proof (cases "truthy_opt key")
    case False
    with b show ?thesis by (simp add: try_block_def)
  next
    case key: True
    show ?thesis
    proof (cases "fetch (chat_request_of (to_str key) b)")
      case (Inl e)
      with b key show ?thesis by (simp add: try_block_def)
    next
      case r: (Inr r)
      show ?thesis
      proof (cases "resp_ok r")
        case False
        with b key r show ?thesis
          by (cases "resp_text r") (simp_all add: try_block_def)
      next
        case ok: True
        show ?thesis
        proof (cases "resp_json r")
          case (Inl e)
          with b key r ok show ?thesis by (simp add: try_block_def)
        next
          case d: (Inr data)
          from assms b key r ok d
          have "\<not> truthy (choices0_message data) \<or> content_empty data"
            by (simp add: step_fails_def)
          then obtain e where "extract_message rt data = Inl e"
            using extract_message_fails by blast
          with b key r ok d show ?thesis by (simp add: try_block_def)
        qed
      qed
    qed
  qed
qed

text \<open>
  C3: for a request other than OPTIONS, each of the listed failures (the key is not
  configured, the upstream response is not ok, it lacks \<open>choices[0].message\<close>, its
  content is empty after trimming) makes the \<open>try\<close> block throw; and whatever error the
  block throws, the response has status 500 and the JSON body
  \<open>{success: false, error: <that error's message>}\<close>.
\<close>

theorem failures_are_wrapped:
  assumes "req_method req \<noteq> lit ''OPTIONS''"
  shows "(step_fails openAIApiKey fetch req \<longrightarrow>
            (\<exists>e. try_block rt openAIApiKey fetch req = Inl e)) \<and>
         (\<forall>e. try_block rt openAIApiKey fetch req = Inl e \<longrightarrow>
            serve rt openAIApiKey fetch req =
              \<lparr>status = 500,
               headers = corsHeaders @ [(lit ''Content-Type'', lit ''application/json'')],
               body = Some (JObj [(lit ''success'', JBool False),
                                  (lit ''error'', JStr (message e))])\<rparr>)"
proof -
  have "\<exists>e. try_block rt openAIApiKey fetch req = Inl e"
    if "step_fails openAIApiKey fetch req"
    using that by (rule try_block_fails)
  moreover have "serve rt openAIApiKey fetch req =
              \<lparr>status = 500,
               headers = corsHeaders @ [(lit ''Content-Type'', lit ''application/json'')],
               body = Some (JObj [(lit ''success'', JBool False),
                                  (lit ''error'', JStr (message e))])\<rparr>"
    if "try_block rt openAIApiKey fetch req = Inl e" for e
    using that assms by (simp add: serve_not_options error_response_def)
  ultimately show ?thesis by blast
qed

text \<open>An upstream that answers 429: the response is the wrapped status line.\<close>

theorem failures_are_wrapped_witness:
  "step_fails (Some (lit ''sk-1'')) (\<lambda>c. Inr busy_response) example_request \<and>
   try_block example_runtime (Some (lit ''sk-1'')) (\<lambda>c. Inr busy_response) example_request =
     Inl (Error (lit ''OpenAI API error: 429 Too Many Requests'')) \<and>
   serve example_runtime (Some (lit ''sk-1'')) (\<lambda>c. Inr busy_response) example_request =
     \<lparr>status = 500,
      headers = corsHeaders @ [(lit ''Content-Type'', lit ''application/json'')],
      body = Some (JObj [(lit ''success'', JBool False),
                         (lit ''error'', JStr (lit ''OpenAI API error: 429 Too Many Requests''))])\<rparr>"
proof -
  have f: "step_fails (Some (lit ''sk-1'')) (\<lambda>c. Inr busy_response) example_request"
    by (simp add: step_fails_def example_request_def busy_response_def)
  have m: "req_method example_request \<noteq> lit ''OPTIONS''"
    by (simp add: example_request_def lit_eval)
  have d: "dec 429 = lit ''429''"
    by (simp add: dec.simps lit_eval)
  have t: "try_block example_runtime (Some (lit ''sk-1'')) (\<lambda>c. Inr busy_response)
             example_request = Inl (Error (lit ''OpenAI API error: 429 Too Many Requests''))"
    by (simp add: try_block_def example_request_def busy_response_def truthy_opt_def
          truthy_str_def d lit_eval)
  from failures_are_wrapped
    [OF m, of "Some (lit ''sk-1'')" "\<lambda>c. Inr busy_response" example_runtime] t f
  show ?thesis by auto
qed

text \<open>
  C4: when the upstream call is made (the request is not OPTIONS, its body was read, the
  key is configured) and the upstream response is ok and has a string at
  \<open>choices[0].message.content\<close> that is not empty after trimming, the response has the
  JSON body \<open>{success: true, message: <the trimmed content>}\<close>.
\<close>

theorem ok_content_is_relayed_trimmed:
  assumes "req_method req \<noteq> lit ''OPTIONS''"
    and "req_json req = Inr b"
    and "truthy_opt openAIApiKey"
    and "fetch (chat_request_of (to_str openAIApiKey) b) = Inr response"
    and "resp_ok response"
    and "resp_json response = Inr data"
    and "message_content data = Some (JStr s)"
    and "trim s \<noteq> []"
  shows "serve rt openAIApiKey fetch req =
           \<lparr>status = 200,
            headers = corsHeaders @ [(lit ''Content-Type'', lit ''application/json'')],
            body = Some (JObj [(lit ''success'', JBool True),
                               (lit ''message'', JStr (trim s))])\<rparr>"
proof -
  have "truthy (json_member (choices0_message data) (lit ''content''))"
  proof -
    have "s \<noteq> []" using assms(8) by (auto simp: trim_def)
    then show ?thesis
      using assms(7) by (simp add: message_content_def truthy_def)
  qed
  then obtain kvs where m: "choices0_message data = Some (JObj kvs)"
    using truthy_json_member_obj by blast
  have nn: "data \<noteq> JNull"
    using m by (auto simp: choices0_message_def)
  have "s \<noteq> []" using assms(8) by (auto simp: trim_def)
  then have "extract_message rt data = Inr (trim s)"
    using nn m assms(7,8) by (simp add: extract_message_eq truthy_def)
  then have "try_block rt openAIApiKey fetch req = Inr (trim s)"
    using assms(2-6) by (simp add: try_block_def)
  then show ?thesis
    using assms(1) by (simp add: serve_not_options success_response_def)
qed

text \<open>An upstream that answers with the content \<open>" Hello "\<close>.\<close>

lemma example_trim: "trim (lit '' Hello '') = lit ''Hello''"
  by (simp add: trim_def is_ws_def lit_eval)

lemma example_content: "message_content example_data = Some (JStr (lit '' Hello ''))"
  by (simp add: message_content_def choices0_message_def example_data_def lit_eval)

lemma example_extract: "extract_message rt example_data = Inr (lit ''Hello'')"
proof -
  have c: "choices0_message example_data =
             Some (JObj [(lit ''content'', JStr (lit '' Hello ''))])"
    by (simp add: choices0_message_def example_data_def lit_eval)
  have n: "example_data \<noteq> JNull"
    by (simp add: example_data_def)
  have l: "lit '' Hello '' \<noteq> []" "lit ''Hello'' \<noteq> []"
    by (simp_all add: lit_eval)
  show ?thesis
    by (simp add: extract_message_eq c n l example_content example_trim truthy_def)
qed

theorem ok_content_is_relayed_trimmed_witness:
  "serve example_runtime (Some (lit ''sk-1'')) (\<lambda>c. Inr example_response) example_request =
     \<lparr>status = 200,
      headers = corsHeaders @ [(lit ''Content-Type'', lit ''application/json'')],
      body = Some (JObj [(lit ''success'', JBool True), (lit ''message'', JStr (lit ''Hello''))])\<rparr>"
proof -
  have m: "req_method example_request \<noteq> lit ''OPTIONS''"
    by (simp add: example_request_def lit_eval)
  have b: "req_json example_request =
             Inr \<lparr>messageType_rq = Some (lit ''linkedin''),
                  recipientName_rq = Some (lit ''Ann''), recipientTitle_rq = None,
                  company_rq = Some (lit ''Acme''), purpose_rq = None\<rparr>"
    by (simp add: example_request_def)
  have k: "truthy_opt (Some (lit ''sk-1''))"
    by (simp add: truthy_opt_def truthy_str_def lit_eval)
  have ok: "resp_ok example_response"
    by (simp add: example_response_def)
  have d: "resp_json example_response = Inr example_data"
    by (simp add: example_response_def)
  have t: "trim (lit '' Hello '') \<noteq> []"
    unfolding example_trim by (simp add: lit_eval)
  from ok_content_is_relayed_trimmed
    [where fetch = "\<lambda>c. Inr example_response" and rt = example_runtime,
     OF m b k refl ok d example_content t]
  show ?thesis by (simp add: example_trim)
qed

text \<open>
  C2 as stated fails: where the edge function would answer \<open>Hello\<close> for the form's
  values, \<open>handleGenerate\<close> shows another text (the LinkedIn template).
\<close>

theorem handleGenerate_ignores_the_function:
  "body (serve example_runtime (Some (lit ''sk-1'')) (\<lambda>c. Inr example_response)
           example_request) =
     Some (JObj [(lit ''success'', JBool True), (lit ''message'', JStr (lit ''Hello''))]) \<and>
   generatedMessage (handleGenerate example_form) \<noteq> lit ''Hello''"
proof -
  have "extract_message example_runtime example_data = Inr (lit ''Hello'')"
    by (rule example_extract)
  then have "try_block example_runtime (Some (lit ''sk-1'')) (\<lambda>c. Inr example_response)
          example_request = Inr (lit ''Hello'')"
    by (simp add: try_block_def example_request_def example_response_def truthy_opt_def
          truthy_str_def lit_eval)
  then have "body (serve example_runtime (Some (lit ''sk-1'')) (\<lambda>c. Inr example_response)
           example_request) =
     Some (JObj [(lit ''success'', JBool True), (lit ''message'', JStr (lit ''Hello''))])"
    by (simp add: serve_def success_response_def example_request_def lit_eval)
  moreover have "generatedMessage (handleGenerate example_form) \<noteq> lit ''Hello''"
    by (simp add: handleGenerate_def Let_def example_form_def linkedin_template_def lit_eval)
  ultimately show ?thesis by blast
qed

section \<open>Row-level security\<close>

lemma using_passes_owner:
  assumes "using_passes t c uid owner"
  shows "uid = Some owner"
  using assms
  by (auto simp: using_passes_def policies_def split: option.splits)

lemma check_passes_owner:
  assumes "check_passes t c uid owner"
  shows "uid = Some owner"
  using assms
  by (auto simp: check_passes_def policies_def split: option.splits)

text \<open>
  C5: on each of the three tables, whenever the policies permit a user a command, the
  user is the owner of the row concerned: of the existing row for SELECT, UPDATE and
  DELETE, and of the new row for INSERT and UPDATE.
\<close>

theorem policies_permit_owner_only:
  assumes "permits t c uid old new"
  shows "case c of
           Select \<Rightarrow> uid = Some old
         | Insert \<Rightarrow> uid = Some new
         | Update \<Rightarrow> uid = Some old \<and> uid = Some new
         | Delete \<Rightarrow> uid = Some old"
  using assms
  by (cases c) (auto dest: using_passes_owner check_passes_owner)

text \<open>The owner of a message is permitted to update it.\<close>

theorem policies_permit_owner_only_witness:
  "permits Networking_messages Update (Some (lit ''u1'')) (lit ''u1'') (lit ''u1'') \<and>
   Some (lit ''u1'') = Some (user_id example_row)"
  using policies_permit_owner_only
    [of Networking_messages Update "Some (lit ''u1'')" "lit ''u1''" "lit ''u1''"]
  by (simp add: using_passes_def check_passes_def policies_def example_row_def)

section \<open>The CHECK constraint on \<open>message_type\<close>\<close>

lemma update_scan_Inr:
  assumes "update_scan role now wh setf seen tbl = Inr tbl'"
  shows "tbl' = seen @ map (\<lambda>r. if wh r \<and> row_visible role Update r
                                 then (setf r)\<lparr>updated_at := now\<rparr> else r) tbl \<and>
         list_all message_type_check
           (map (\<lambda>r. (setf r)\<lparr>updated_at := now\<rparr>)
              (filter (\<lambda>r. wh r \<and> row_visible role Update r) tbl))"
  using assms
proof (induction tbl arbitrary: seen)
  case Nil
  then show ?case by simp
next
  case (Cons r tbl)
  show ?case
  proof (cases "wh r \<and> row_visible role Update r")
    case True
    let ?new = "(setf r)\<lparr>updated_at := now\<rparr>"
    from Cons.prems True
    have chk: "message_type_check ?new"
      and rest: "update_scan role now wh setf (seen @ [?new]) tbl = Inr tbl'"
      by (auto simp: Let_def split: if_splits)
    from Cons.IH [OF rest] chk True show ?thesis by simp
  next
    case False
    with Cons.prems have "update_scan role now wh setf (seen @ [r]) tbl = Inr tbl'"
      by auto
    from Cons.IH [OF this] False show ?thesis by auto
  qed
qed

lemma update_rows_Inr:
  assumes "update_rows role now wh setf tbl = Inr tbl'"
  shows "tbl' = map (\<lambda>r. if wh r \<and> row_visible role Update r
                          then (setf r)\<lparr>updated_at := now\<rparr> else r) tbl"
    and "list_all message_type_check
           (map (\<lambda>r. (setf r)\<lparr>updated_at := now\<rparr>)
              (filter (\<lambda>r. wh r \<and> row_visible role Update r) tbl))"
  using update_scan_Inr [of role now wh setf "[]" tbl tbl'] assms
  by (simp_all add: update_rows_def)

lemma allowed_is_MessageType:
  "set allowed_message_types = range MessageType_name"
proof
  show "set allowed_message_types \<subseteq> range MessageType_name"
  proof
    fix x assume "x \<in> set allowed_message_types"
    then consider "x = MessageType_name Linkedin" | "x = MessageType_name Informational"
      | "x = MessageType_name RecruiterFollowup" | "x = MessageType_name MentorRequest"
      by (auto simp: allowed_message_types_def)
    then show "x \<in> range MessageType_name" by cases blast+
  qed
next
  show "range MessageType_name \<subseteq> set allowed_message_types"
  proof
    fix x assume "x \<in> range MessageType_name"
    then obtain t where "x = MessageType_name t" by blast
    then show "x \<in> set allowed_message_types"
      by (cases t) (simp_all add: allowed_message_types_def)
  qed
qed

lemma insert_row_check:
  assumes "list_all message_type_check tbl" and "insert_row role r tbl = Inr tbl'"
  shows "list_all message_type_check tbl'"
  using assms by (auto simp: insert_row_def split: if_splits)

lemma update_rows_check:
  assumes "list_all message_type_check tbl" and "update_rows role now wh setf tbl = Inr tbl'"
  shows "list_all message_type_check tbl'"
proof -
  let ?target = "\<lambda>r. wh r \<and> row_visible role Update r"
  let ?new = "\<lambda>r. (setf r)\<lparr>updated_at := now\<rparr>"
  have tbl': "tbl' = map (\<lambda>r. if ?target r then ?new r else r) tbl"
    and news: "list_all message_type_check (map ?new (filter ?target tbl))"
    using update_rows_Inr [OF assms(2)] by blast+
  have "message_type_check (if ?target r then ?new r else r)" if "r \<in> set tbl" for r
  proof (cases "?target r")
    case True
    with that have "?new r \<in> set (map ?new (filter ?target tbl))" by auto
    with news True show ?thesis by (auto simp: list_all_iff)
  next
    case False
    with that assms(1) show ?thesis by (auto simp: list_all_iff)
  qed
  then show ?thesis unfolding tbl' list_all_iff set_map by blast
qed

lemma delete_rows_check:
  assumes "list_all message_type_check tbl"
  shows "list_all message_type_check (delete_rows role wh tbl)"
  using assms by (auto simp: delete_rows_def list_all_iff)

lemma exec_check:
  assumes "list_all message_type_check tbl" and "exec role st tbl = Inr tbl'"
  shows "list_all message_type_check tbl'"
proof (cases st)
  case (Insert_stmt r)
  with assms show ?thesis by (auto intro: insert_row_check)
next
  case (Update_stmt now wh setf)
  with assms show ?thesis by (auto intro: update_rows_check)
next
  case (Delete_stmt wh)
  with assms show ?thesis by (auto intro: delete_rows_check)
qed

lemma exec_all_check:
  assumes "list_all message_type_check tbl"
  shows "list_all message_type_check (exec_all sts tbl)"
  using assms
proof (induction sts arbitrary: tbl)
  case Nil
  then show ?case by simp
next
  case (Cons a sts)
  obtain role st where a: "a = (role, st)" by (cases a)
  show ?case
  proof (cases "exec role st tbl")
    case (Inl e)
    with Cons a show ?thesis by simp
  next
    case (Inr tbl')
    with Cons.prems have "list_all message_type_check tbl'" by (rule exec_check)
    with Cons.IH Inr a show ?thesis by simp
  qed
qed

text \<open>
  C10: the values that the CHECK constraint admits are exactly the four names of the
  \<open>MessageType\<close> union; every row of every table reached from the empty one, by any
  statements of any roles, has such a \<open>message_type\<close>; and each INSERT, UPDATE or DELETE
  that succeeds on a table with this property leads to a table with it.
\<close>

theorem message_type_is_one_of_four:
  "set allowed_message_types = range MessageType_name \<and>
   (\<forall>r \<in> set (exec_all sts []). message_type r \<in> range MessageType_name) \<and>
   ((\<forall>r \<in> set tbl. message_type r \<in> range MessageType_name) \<and>
      exec role st tbl = Inr tbl' \<longrightarrow>
    (\<forall>r \<in> set tbl'. message_type r \<in> range MessageType_name))"
proof -
  have inv: "list_all message_type_check t = (\<forall>r \<in> set t. message_type r \<in> range MessageType_name)"
    for t
    by (simp add: list_all_iff message_type_check_def allowed_is_MessageType)
  have "list_all message_type_check (exec_all sts [])"
    by (rule exec_all_check) simp
  then have reach: "\<forall>r \<in> set (exec_all sts []). message_type r \<in> range MessageType_name"
    by (simp only: inv)
  have "list_all message_type_check tbl'"
    if "list_all message_type_check tbl" "exec role st tbl = Inr tbl'"
    using that by (rule exec_check)
  then have pres: "(\<forall>r \<in> set tbl. message_type r \<in> range MessageType_name) \<and>
      exec role st tbl = Inr tbl' \<longrightarrow>
    (\<forall>r \<in> set tbl'. message_type r \<in> range MessageType_name)"
    by (simp only: inv) blast
  from allowed_is_MessageType reach pres show ?thesis by blast
qed

text \<open>An insert by the owner into the empty table.\<close>

theorem message_type_is_one_of_four_witness:
  "exec (Client (Some (lit ''u1''))) (Insert_stmt example_row) [] = Inr [example_row] \<and>
   exec_all [(Client (Some (lit ''u1'')), Insert_stmt example_row)] [] = [example_row] \<and>
   message_type example_row \<in> range MessageType_name"
  using message_type_is_one_of_four
    [of "[(Client (Some (lit ''u1'')), Insert_stmt example_row)]" "[]"
        "Client (Some (lit ''u1''))" "Insert_stmt example_row" "[example_row]"]
  by (simp add: insert_row_def check_passes_def policies_def message_type_check_def
        allowed_message_types_def example_row_def lit_eval)

section \<open>Toggling a favorite\<close>

lemma using_passes_update:
  "using_passes Networking_messages Update uid owner = (uid = Some owner)"
  by (auto simp: using_passes_def policies_def split: option.splits)

lemma update_favorite_Inr:
  assumes "update_favorite env msg w = Inr tbl'"
  shows "tbl' = map (\<lambda>r. if id_nm r = id_nm msg \<and> auth_uid env = Some (user_id r)
                          then r\<lparr>is_favorite := \<not> is_favorite msg, updated_at := db_now env\<rparr>
                          else r)
                  (networking_messages w)"
proof -
  from assms have "update_rows (Client (auth_uid env)) (db_now env)
             (\<lambda>r. id_nm r = id_nm msg)
             (\<lambda>r. r\<lparr>is_favorite := \<not> is_favorite msg\<rparr>)
             (networking_messages w) = Inr tbl'"
    by (simp add: update_favorite_def split: if_splits)
  from update_rows_Inr(1) [OF this] show ?thesis
    by (simp add: using_passes_update)
qed

text \<open>
  C7 (amended): when the update request of \<open>toggleFavorite(m)\<close> reports no error, the
  local list changes only in the \<open>is_favorite\<close> field of the messages with the id of
  \<open>m\<close>, which is negated; and the table changes only in the rows with that id that the
  signed-in user owns, where \<open>is_favorite\<close> becomes the negation of \<open>m.is_favorite\<close> and
  the trigger sets \<open>updated_at\<close> to \<open>now()\<close>. Every other field and every other message
  or row is unchanged.
\<close>

theorem toggleFavorite_frame:
  assumes "update_favorite env msg w = Inr tbl'"
  shows "messages (toggleFavorite env msg w) =
           map (\<lambda>m. if id_nm m = id_nm msg then m\<lparr>is_favorite := \<not> is_favorite m\<rparr> else m)
             (messages w) \<and>
         networking_messages (toggleFavorite env msg w) =
           map (\<lambda>r. if id_nm r = id_nm msg \<and> auth_uid env = Some (user_id r)
                     then r\<lparr>is_favorite := \<not> is_favorite msg, updated_at := db_now env\<rparr>
                     else r)
             (networking_messages w)"
proof -
  have "networking_messages (toggleFavorite env msg w) = tbl'"
    using assms by (simp add: toggleFavorite_def Let_def)
  moreover have "messages (toggleFavorite env msg w) =
           map (\<lambda>m. if id_nm m = id_nm msg then m\<lparr>is_favorite := \<not> is_favorite m\<rparr> else m)
             (messages w)"
    using assms by (simp add: toggleFavorite_def Let_def)
  ultimately show ?thesis
    using update_favorite_Inr [OF assms] by simp
qed

text \<open>The owner marks the stored message as a favorite.\<close>

lemma example_update:
  "update_favorite example_env example_row example_world =
     Inr [example_row\<lparr>is_favorite := True, updated_at := lit ''2025-09-12T08:00:00Z''\<rparr>]"
  by (simp add: update_favorite_def update_rows_def Let_def example_env_def example_world_def
        example_row_def using_passes_def check_passes_def policies_def
        message_type_check_def allowed_message_types_def lit_eval)

theorem toggleFavorite_frame_witness:
  "messages (toggleFavorite example_env example_row example_world) =
     [example_row\<lparr>is_favorite := True\<rparr>] \<and>
   networking_messages (toggleFavorite example_env example_row example_world) =
     [example_row\<lparr>is_favorite := True, updated_at := lit ''2025-09-12T08:00:00Z''\<rparr>]"
  using toggleFavorite_frame [OF example_update]
  by (simp add: example_env_def example_world_def example_row_def)

text \<open>
  C7 as stated fails in the database: after a successful toggle the stored row differs
  from the old one in \<open>updated_at\<close> as well as in \<open>is_favorite\<close>.
\<close>

theorem toggleFavorite_touches_updated_at:
  "networking_messages example_world = [example_row] \<and>
   networking_messages (toggleFavorite example_env example_row example_world) \<noteq>
     [example_row\<lparr>is_favorite := \<not> is_favorite example_row\<rparr>]"
  by (simp add: toggleFavorite_def example_update Let_def)
    (simp add: example_world_def example_row_def lit_eval)

end
